theory Spec2Isabelle
  imports Complex_Main "HOL-Library.AList" "HOL-Library.Sublist"
begin

section \<open>Strings\<close>

text \<open>
  Python strings are modelled as HOL strings, one \<open>char\<close> per code point; the accented
  letters of the program (all of them in Latin-1) are the characters of that code.
  Code points above U+00FF are outside the model.
\<close>

abbreviation a_grave :: char where "a_grave \<equiv> CHR 0xE0"
abbreviation e_grave :: char where "e_grave \<equiv> CHR 0xE8"
abbreviation e_acute :: char where "e_acute \<equiv> CHR 0xE9"
abbreviation e_circ :: char where "e_circ \<equiv> CHR 0xEA"

text \<open>\<open>str.lower()\<close> on Latin-1: A-Z and U+00C0..U+00DE (but the sign U+00D7) move by 32.\<close>

definition lower_char :: "char \<Rightarrow> char" where
  "lower_char c =
     (let n = (of_char c :: nat)
      in if (65 \<le> n \<and> n \<le> 90) \<or> (192 \<le> n \<and> n \<le> 222 \<and> n \<noteq> 215)
         then char_of (n + 32) else c)"

definition lower :: "string \<Rightarrow> string" where
  "lower s = map lower_char s"

fun startswith :: "string \<Rightarrow> string \<Rightarrow> bool" where
  "startswith s [] = True"
| "startswith [] (p # ps) = False"
| "startswith (c # cs) (p # ps) = (c = p \<and> startswith cs ps)"

text \<open>\<open>str_in sub s\<close> is Python's \<open>sub in s\<close> on two strings: \<open>sub\<close> occurs in \<open>s\<close>.\<close>

fun str_in :: "string \<Rightarrow> string \<Rightarrow> bool" where
  "str_in sub [] = (sub = [])"
| "str_in sub (c # cs) = (startswith (c # cs) sub \<or> str_in sub cs)"

text \<open>\<open>name.split('.')[-1]\<close>: what follows the last dot, the whole name when it has none.\<close>

definition last_dot_part :: "string \<Rightarrow> string" where
  "last_dot_part s = rev (takeWhile (\<lambda>c. c \<noteq> CHR ''.'') (rev s))"

section \<open>The labels of the program\<close>

definition detection_automatique :: string where
  "detection_automatique = ''D'' @ [e_acute] @ ''tection automatique''"

definition chiropteres :: string where
  "chiropteres = ''Chiropt'' @ [e_grave] @ ''res''"

definition odonates :: string where
  "odonates = ''Odonates''"

definition pie_grieche_grise :: string where
  "pie_grieche_grise = ''Pie-gri'' @ [e_grave] @ ''che grise''"

definition pie_grieche_meridionale :: string where
  "pie_grieche_meridionale = ''Pie-gri'' @ [e_grave] @ ''che m'' @ [e_acute] @ ''ridionale''"

definition pie_grieche_a_tete_rousse :: string where
  "pie_grieche_a_tete_rousse =
     ''Pie-gri'' @ [e_grave] @ ''che '' @ [a_grave] @ '' t'' @ [e_circ] @ ''te rousse''"

definition type_non_detecte :: string where
  "type_non_detecte = ''Type non d'' @ [e_acute] @ ''tect'' @ [e_acute]"

definition type_inconnu :: string where
  "type_inconnu = ''Type inconnu''"

definition indetermine :: string where
  "indetermine = ''Ind'' @ [e_acute] @ ''termin'' @ [e_acute]"

definition enjeu_detaille :: string where
  "enjeu_detaille = ''enjeu_d'' @ [e_acute] @ ''taill'' @ [e_acute]"

text \<open>The choices of the select box \<open>pna_type\<close>, in the order of the source.\<close>

definition pna_type_options :: "string list" where
  "pna_type_options =
     [detection_automatique, chiropteres, odonates, pie_grieche_grise,
      pie_grieche_meridionale, pie_grieche_a_tete_rousse]"

lemmas label_defs =
  detection_automatique_def chiropteres_def odonates_def pie_grieche_grise_def
  pie_grieche_meridionale_def pie_grieche_a_tete_rousse_def type_non_detecte_def
  type_inconnu_def indetermine_def enjeu_detaille_def

section \<open>Parsed JSON and the Python operations the program applies to it\<close>

text \<open>
  What \<open>json.load\<close> returns: a tree of Python values. An object is a \<open>dict\<close>, kept as
  an association list in insertion order. Numbers are read as reals. Every operation
  that raises in Python returns \<open>None\<close> here.
\<close>

datatype json =
    JNull
  | JBool bool
  | JNum real
  | JStr string
  | JArr "json list"
  | JObj "(string \<times> json) list"

text \<open>\<open>k in v\<close> for a string \<open>k\<close>: a key of a dict, an element of a list, a substring of a
  string; a \<open>TypeError\<close> on numbers, booleans and \<open>None\<close>.\<close>

fun py_in :: "string \<Rightarrow> json \<Rightarrow> bool option" where
  "py_in k (JObj kvs) = Some (map_of kvs k \<noteq> None)"
| "py_in k (JArr xs) = Some (JStr k \<in> set xs)"
| "py_in k (JStr s) = Some (str_in k s)"
| "py_in k JNull = None"
| "py_in k (JBool b) = None"
| "py_in k (JNum r) = None"

text \<open>\<open>v[k]\<close> for a string \<open>k\<close>: the value of a dict at a key it has; raises otherwise.\<close>

fun py_getitem :: "json \<Rightarrow> string \<Rightarrow> json option" where
  "py_getitem (JObj kvs) k = map_of kvs k"
| "py_getitem JNull k = None"
| "py_getitem (JBool b) k = None"
| "py_getitem (JNum r) k = None"
| "py_getitem (JStr s) k = None"
| "py_getitem (JArr xs) k = None"

text \<open>The elements a \<open>for\<close> loop over \<open>v\<close> visits: of a list its elements, of a string its
  characters, of a dict its keys; a \<open>TypeError\<close> otherwise.\<close>

fun py_iter :: "json \<Rightarrow> json list option" where
  "py_iter (JArr xs) = Some xs"
| "py_iter (JStr s) = Some (map (\<lambda>c. JStr [c]) s)"
| "py_iter (JObj kvs) = Some (map (\<lambda>kv. JStr (fst kv)) kvs)"
| "py_iter JNull = None"
| "py_iter (JBool b) = None"
| "py_iter (JNum r) = None"

text \<open>The elements a \<open>for\<close> loop over \<open>v[:10]\<close> visits: a dict cannot be sliced.\<close>

fun py_slice10 :: "json \<Rightarrow> json list option" where
  "py_slice10 (JArr xs) = Some (take 10 xs)"
| "py_slice10 (JStr s) = Some (map (\<lambda>c. JStr [c]) (take 10 s))"
| "py_slice10 (JObj kvs) = None"
| "py_slice10 JNull = None"
| "py_slice10 (JBool b) = None"
| "py_slice10 (JNum r) = None"

fun py_len :: "json \<Rightarrow> nat option" where
  "py_len (JArr xs) = Some (length xs)"
| "py_len (JStr s) = Some (length s)"
| "py_len (JObj kvs) = Some (length kvs)"
| "py_len JNull = None"
| "py_len (JBool b) = None"
| "py_len (JNum r) = None"

text \<open>\<open>str(v)\<close>: a string is itself; the text Python prints for any other value is the
  parameter \<open>repr\<close>.\<close>

fun py_str :: "(json \<Rightarrow> string) \<Rightarrow> json \<Rightarrow> string" where
  "py_str repr (JStr s) = s"
| "py_str repr v = repr v"

section \<open>Loading and classifying the uploaded files\<close>

text \<open>An uploaded file: its name and what \<open>json.load\<close> makes of it (\<open>None\<close> when it raises).\<close>

record uploaded_file =
  name :: string
  parsed :: "json option"

text \<open>An entry of \<open>all_data_sources\<close>: the dict with the keys \<open>data\<close> and \<open>type\<close>.\<close>

record file_info =
  data :: json
  type :: string

type_synonym data_sources = "(string \<times> file_info) list"

datatype message =
    Success string string nat
  | Error_invalid string
  | Error_loading string

text \<open>Lines 173-182: the type read from the file name, \<open>type_non_detecte\<close> when no rule fires.\<close>

definition detect_by_name :: "string \<Rightarrow> string" where
  "detect_by_name file_name =
     (let n = lower file_name
      in if str_in ''chiroptere'' n \<or> str_in ''chauve'' n then chiropteres
         else if str_in ''odonat'' n \<or> str_in ''libellule'' n then odonates
         else if str_in ''griseche'' n \<and> str_in ''grise'' n then pie_grieche_grise
         else if str_in ''griseche'' n \<and> str_in ''merid'' n then pie_grieche_meridionale
         else if (str_in ''griseche'' n \<and> str_in ''rousse'' n) \<or> str_in ''tete rousse'' n
              then pie_grieche_a_tete_rousse
         else type_non_detecte)"

text \<open>Lines 203-218: the rules on the lowercased species name; \<open>Some t\<close> where the source
  assigns \<open>t\<close> and breaks, \<open>None\<close> where it goes on to the next feature.\<close>

definition detect_by_espece :: "string \<Rightarrow> string option" where
  "detect_by_espece espece =
     (if str_in ''chauve'' espece \<or> str_in (''chiropt'' @ [e_grave] @ ''re'') espece
         \<or> str_in ''chiroptere'' espece then Some chiropteres
      else if str_in ''odonates'' espece \<or> str_in ''libellule'' espece then Some odonates
      else if str_in (''gri'' @ [e_grave] @ ''che'') espece \<or> str_in ''grieche'' espece then
        (if str_in ''grise'' espece \<and> \<not> str_in (''t'' @ [e_circ] @ ''te'') espece
            \<and> \<not> str_in ''tete'' espece then Some pie_grieche_grise
         else if str_in (''m'' @ [e_acute] @ ''rid'') espece \<or> str_in ''merid'' espece
           then Some pie_grieche_meridionale
         else if str_in (''t'' @ [e_circ] @ ''te rousse'') espece \<or> str_in ''tete rousse'' espece
           then Some pie_grieche_a_tete_rousse
         else None)
      else None)"

text \<open>Lines 197-218 for one feature: \<open>None\<close> when an operation raises, \<open>Some None\<close> when the
  loop continues, \<open>Some (Some t)\<close> when it breaks with \<open>t\<close>.\<close>

definition inspect_feature :: "(json \<Rightarrow> string) \<Rightarrow> json \<Rightarrow> string option option" where
  "inspect_feature repr feature =
     (case py_in ''properties'' feature of
        None \<Rightarrow> None
      | Some False \<Rightarrow> Some None
      | Some True \<Rightarrow>
          (case py_getitem feature ''properties'' of
             None \<Rightarrow> None
           | Some props \<Rightarrow>
               (case py_in ''n_espece'' props of
                  None \<Rightarrow> None
                | Some False \<Rightarrow> Some None
                | Some True \<Rightarrow>
                    (case py_getitem props ''n_espece'' of
                       None \<Rightarrow> None
                     | Some v \<Rightarrow> Some (detect_by_espece (lower (py_str repr v)))))))"

text \<open>The loop of line 196 over the features it is given: the value of \<open>detected_type\<close>
  after it, \<open>None\<close> when it raises.\<close>

fun inspect_features :: "(json \<Rightarrow> string) \<Rightarrow> json list \<Rightarrow> string option" where
  "inspect_features repr [] = Some type_non_detecte"
| "inspect_features repr (feature # rest) =
     (case inspect_feature repr feature of
        None \<Rightarrow> None
      | Some (Some t) \<Rightarrow> Some t
      | Some None \<Rightarrow> inspect_features repr rest)"

text \<open>Lines 196-218: the content heuristic on \<open>data['features'][:10]\<close>.\<close>

definition detect_by_content :: "(json \<Rightarrow> string) \<Rightarrow> json \<Rightarrow> string option" where
  "detect_by_content repr d =
     (case py_getitem d ''features'' of
        None \<Rightarrow> None
      | Some fs \<Rightarrow>
          (case py_slice10 fs of
             None \<Rightarrow> None
           | Some first10 \<Rightarrow> inspect_features repr first10))"

text \<open>Line 192: \<open>'type' in data and 'features' in data\<close>, the second test only after a
  true first one.\<close>

definition is_geojson :: "json \<Rightarrow> bool option" where
  "is_geojson d =
     (case py_in ''type'' d of
        None \<Rightarrow> None
      | Some False \<Rightarrow> Some False
      | Some True \<Rightarrow> py_in ''features'' d)"

definition file_extension :: "string \<Rightarrow> string" where
  "file_extension file_name = lower (last_dot_part file_name)"

text \<open>Lines 184-186 and 194-226: the type stored with the data; \<open>None\<close> when the content
  heuristic raises.\<close>

definition current_type :: "(json \<Rightarrow> string) \<Rightarrow> string \<Rightarrow> string \<Rightarrow> json \<Rightarrow> string option" where
  "current_type repr pna_type file_name d =
     (let detected_type =
            (if pna_type = detection_automatique then detect_by_name file_name
             else type_non_detecte);
          current = (if pna_type = detection_automatique then detected_type else pna_type)
      in case (if pna_type = detection_automatique \<and> detected_type = type_non_detecte
               then (case detect_by_content repr d of
                       None \<Rightarrow> None
                     | Some t \<Rightarrow> Some (if t \<noteq> type_non_detecte then t else current))
               else Some current) of
           None \<Rightarrow> None
         | Some t \<Rightarrow> Some (if t = type_non_detecte then type_inconnu else t))"

text \<open>
  Lines 163-240, the body of the loop over the uploaded files, on the state made of
  \<open>all_data_sources\<close> and the messages shown so far. The handler of line 239 turns every
  exception into an error message and keeps what was stored before it. (The dict
  \<open>file_types\<close> is written and never read; it is left out.)
\<close>

definition load_file ::
  "(json \<Rightarrow> string) \<Rightarrow> string \<Rightarrow> data_sources \<times> message list \<Rightarrow> uploaded_file
     \<Rightarrow> data_sources \<times> message list" where
  "load_file repr pna_type st uploaded =
     (let all_data_sources = fst st; msgs = snd st; file_name = name uploaded
      in if file_extension file_name \<in> set [''geojson'', ''json''] then
           (case parsed uploaded of
              None \<Rightarrow> (all_data_sources, msgs @ [Error_loading file_name])
            | Some d \<Rightarrow>
                (case is_geojson d of
                   None \<Rightarrow> (all_data_sources, msgs @ [Error_loading file_name])
                 | Some False \<Rightarrow> (all_data_sources, msgs @ [Error_invalid file_name])
                 | Some True \<Rightarrow>
                     (case current_type repr pna_type file_name d of
                        None \<Rightarrow> (all_data_sources, msgs @ [Error_loading file_name])
                      | Some t \<Rightarrow>
                          (let stored = AList.update file_name
                                          \<lparr>data = d, type = t\<rparr> all_data_sources
                           in case Option.bind (py_getitem d ''features'') py_len of
                                None \<Rightarrow> (stored, msgs @ [Error_loading file_name])
                              | Some n \<Rightarrow> (stored, msgs @ [Success file_name t n])))))
         else (all_data_sources, msgs))"

text \<open>Lines 151 and 161-240: every uploaded file in turn, from an empty collection.\<close>

definition load_files :: "(json \<Rightarrow> string) \<Rightarrow> string \<Rightarrow> uploaded_file list \<Rightarrow> data_sources \<times> message list" where
  "load_files repr pna_type uploaded_files = foldl (load_file repr pna_type) ([], []) uploaded_files"

text \<open>
  Lines 247-254: the rows of the table of the loaded files, one for each file with its
  type and its number of zones; \<open>None\<close> when \<open>len(file_info["data"]["features"])\<close>
  raises. No handler surrounds these lines: the run of the script ends there.
\<close>

definition file_summary :: "data_sources \<Rightarrow> (string \<times> string \<times> nat) list option" where
  "file_summary all_data_sources =
     those (map (\<lambda>(file_name, file_info).
                   map_option (\<lambda>feature_count. (file_name, type file_info, feature_count))
                     (Option.bind (py_getitem (data file_info) ''features'') py_len))
                all_data_sources)"

section \<open>The geometry library\<close>

text \<open>
  The program leaves all geometry to the library \<open>shapely\<close>, which is not part of it. The
  four operations it calls are the fields of a record, for any type \<open>'s\<close> of shapes and
  \<open>'r\<close> of buffer regions: \<open>shape\<close> reads a GeoJSON geometry (\<open>None\<close> when it raises),
  \<open>contains\<close> and \<open>intersects\<close> are the two predicates, \<open>buffer\<close> is \<open>Point.buffer\<close>.
  A point \<open>Point(x, y)\<close> is the pair of its coordinates, read as reals.
\<close>

type_synonym point = "real \<times> real"

record ('s, 'r) shapely =
  shape :: "json \<Rightarrow> 's option"
  contains :: "'s \<Rightarrow> point \<Rightarrow> bool"
  intersects :: "'s \<Rightarrow> 'r \<Rightarrow> bool"
  buffer :: "point \<Rightarrow> real \<Rightarrow> 'r"

section \<open>Checking a point against the loaded zones\<close>

text \<open>\<open>d[k] = v\<close> on a dict: the stored value is replaced, a new key goes to the end.\<close>

fun py_setitem :: "json \<Rightarrow> string \<Rightarrow> json \<Rightarrow> json" where
  "py_setitem (JObj kvs) k v = JObj (AList.update k v kvs)"
| "py_setitem j k v = j"

text \<open>Lines 110-116: the three assignments into the dict \<open>properties\<close>.\<close>

definition annotate :: "string \<Rightarrow> string \<Rightarrow> (string \<times> json) list \<Rightarrow> (string \<times> json) list" where
  "annotate data_type file_name properties =
     (let p1 = (if data_type = chiropteres
                then AList.update enjeu_detaille
                       (case map_of properties ''t_enjeux'' of
                          None \<Rightarrow> JStr indetermine
                        | Some enjeu \<Rightarrow> enjeu) properties
                else properties);
          p2 = AList.update ''type_pna'' (JStr data_type) p1
      in AList.update ''fichier_source'' (JStr file_name) p2)"

text \<open>
  Lines 103-120, the body of the loop over the features: the feature as the loop leaves
  it and the dict appended to \<open>results\<close>, if any. The dict \<open>properties\<close> is the one
  stored in the feature, so the assignments change the feature. Every exception
  (a missing key, a geometry \<open>shape\<close> cannot read, a \<open>properties\<close> that is no dict) is
  caught at line 119, before anything was assigned.
\<close>

definition check_feature ::
  "('s, 'r) shapely \<Rightarrow> point \<Rightarrow> 'r \<Rightarrow> string \<Rightarrow> string \<Rightarrow> json \<Rightarrow> json \<times> json option" where
  "check_feature G point_l93 point_buffer data_type file_name feature =
     (case py_getitem feature ''geometry'' of
        None \<Rightarrow> (feature, None)
      | Some geometry \<Rightarrow>
          (case shape G geometry of
             None \<Rightarrow> (feature, None)
           | Some pna_shape \<Rightarrow>
               (case py_getitem feature ''properties'' of
                  None \<Rightarrow> (feature, None)
                | Some properties \<Rightarrow>
                    if contains G pna_shape point_l93 \<or> intersects G pna_shape point_buffer
                    then (case properties of
                            JObj kvs \<Rightarrow>
                              (let stamped = JObj (annotate data_type file_name kvs)
                               in (py_setitem feature ''properties'' stamped, Some stamped))
                          | _ \<Rightarrow> (feature, None))
                    else (feature, None))))"

text \<open>Lines 102-120: the loop over the features of one file.\<close>

fun check_features ::
  "('s, 'r) shapely \<Rightarrow> point \<Rightarrow> 'r \<Rightarrow> string \<Rightarrow> string \<Rightarrow> json list \<Rightarrow> json list \<times> json list" where
  "check_features G point_l93 point_buffer data_type file_name [] = ([], [])"
| "check_features G point_l93 point_buffer data_type file_name (feature # rest) =
     (let (feature', found) = check_feature G point_l93 point_buffer data_type file_name feature;
          (rest', results) = check_features G point_l93 point_buffer data_type file_name rest
      in (feature' # rest', (case found of None \<Rightarrow> results | Some r \<Rightarrow> r # results)))"

text \<open>
  Lines 94-120: the loop over \<open>all_data_sources.items()\<close>. The result is the collection as
  the loop leaves it and the list \<open>results\<close>, or \<open>None\<close> for the list when
  \<open>data_source['features']\<close> raises or cannot be iterated: that exception is not caught
  inside the loop, and what earlier files were assigned stays assigned.
\<close>

fun check_sources ::
  "('s, 'r) shapely \<Rightarrow> point \<Rightarrow> data_sources \<Rightarrow> data_sources \<times> json list option" where
  "check_sources G point_l93 [] = ([], Some [])"
| "check_sources G point_l93 ((file_name, file_info) # rest) =
     (let data_source = data file_info;
          data_type = type file_info;
          point_buffer = buffer G point_l93 1
      in case Option.bind (py_getitem data_source ''features'') py_iter of
           None \<Rightarrow> ((file_name, file_info) # rest, None)
         | Some features \<Rightarrow>
             (let (features', found) =
                    check_features G point_l93 point_buffer data_type file_name features;
                  file_info' =
                    (case py_getitem data_source ''features'' of
                       Some (JArr fs) \<Rightarrow>
                         file_info\<lparr>data := py_setitem data_source ''features'' (JArr features')\<rparr>
                     | _ \<Rightarrow> file_info);
                  (rest', results) = check_sources G point_l93 rest
              in ((file_name, file_info') # rest', map_option (\<lambda>rs. found @ rs) results)))"

text \<open>What \<open>is_in_pna\<close> returns (the flag and the list, \<open>None\<close> for Python's \<open>None\<close>) and
  what it does: the collection after the call, and whether line 127 showed an error.\<close>

record outcome =
  in_pna :: bool
  results :: "json list option"
  sources :: data_sources
  error_shown :: bool

text \<open>Lines 84-128. The coordinates are numbers, so the two points and the buffer are
  always built; \<open>lat\<close> and \<open>lon\<close> only make a point that is not used.\<close>

definition is_in_pna ::
  "('s, 'r) shapely \<Rightarrow> real \<Rightarrow> real \<Rightarrow> real \<Rightarrow> real \<Rightarrow> data_sources \<Rightarrow> outcome" where
  "is_in_pna G lat lon x_l93 y_l93 all_data_sources =
     (let point_l93 = (x_l93, y_l93);
          (after, found) = check_sources G point_l93 all_data_sources
      in case found of
           None \<Rightarrow> \<lparr>in_pna = False, results = None, sources = after, error_shown = True\<rparr>
         | Some rs \<Rightarrow>
             if rs \<noteq> [] then \<lparr>in_pna = True, results = Some rs, sources = after, error_shown = False\<rparr>
             else \<lparr>in_pna = False, results = None, sources = after, error_shown = False\<rparr>)"

section \<open>Notions used to state the properties\<close>

text \<open>The features of a stored file when its \<open>features\<close> member is a list.\<close>

definition feature_list :: "file_info \<Rightarrow> json list option" where
  "feature_list file_info =
     (case py_getitem (data file_info) ''features'' of
        Some (JArr fs) \<Rightarrow> Some fs
      | _ \<Rightarrow> None)"

definition features_of :: "file_info \<Rightarrow> json list" where
  "features_of file_info = (case feature_list file_info of Some fs \<Rightarrow> fs | None \<Rightarrow> [])"

text \<open>The shape of a feature: its \<open>geometry\<close> member as the library reads it, if it does.\<close>

definition readable_shape :: "('s, 'r) shapely \<Rightarrow> json \<Rightarrow> 's option" where
  "readable_shape G feature = Option.bind (py_getitem feature ''geometry'') (shape G)"

text \<open>A feature is a match for a point: its shape contains the point or meets the buffer
  of one metre around it.\<close>

definition is_match :: "('s, 'r) shapely \<Rightarrow> point \<Rightarrow> json \<Rightarrow> bool" where
  "is_match G p feature =
     (case readable_shape G feature of
        None \<Rightarrow> False
      | Some s \<Rightarrow> contains G s p \<or> intersects G s (buffer G p 1))"

text \<open>The attribute mapping of a feature: its \<open>properties\<close> member when that is a dict.\<close>

definition properties_dict :: "json \<Rightarrow> (string \<times> json) list option" where
  "properties_dict feature =
     (case py_getitem feature ''properties'' of
        Some (JObj kvs) \<Rightarrow> Some kvs
      | _ \<Rightarrow> None)"

text \<open>The record a feature yields when it matches: its attributes with the derived fields
  (of no attributes when it has no mapping).\<close>

definition match_result :: "string \<Rightarrow> string \<Rightarrow> json \<Rightarrow> json" where
  "match_result data_type file_name feature =
     JObj (annotate data_type file_name
             (case properties_dict feature of Some kvs \<Rightarrow> kvs | None \<Rightarrow> []))"

text \<open>The records of all matching features: files in the order of the collection, the
  features of each file in the order of its list.\<close>

definition all_matches :: "('s, 'r) shapely \<Rightarrow> point \<Rightarrow> data_sources \<Rightarrow> json list" where
  "all_matches G p all_data_sources =
     concat (map (\<lambda>(file_name, file_info).
                    map (match_result (type file_info) file_name)
                        (filter (is_match G p) (features_of file_info)))
                 all_data_sources)"

text \<open>What a feature appends to \<open>results\<close>: the record of a matching feature that has an
  attribute mapping, and nothing otherwise.\<close>

definition emitted :: "('s, 'r) shapely \<Rightarrow> point \<Rightarrow> string \<Rightarrow> string \<Rightarrow> json \<Rightarrow> json option" where
  "emitted G p data_type file_name feature =
     (if is_match G p feature
      then map_option (\<lambda>kvs. JObj (annotate data_type file_name kvs)) (properties_dict feature)
      else None)"

text \<open>The records of all features that match and have an attribute mapping: files in the
  order of the collection, the features of each file in the order of its list.\<close>

definition all_records :: "('s, 'r) shapely \<Rightarrow> point \<Rightarrow> data_sources \<Rightarrow> json list" where
  "all_records G p all_data_sources =
     concat (map (\<lambda>(file_name, file_info).
                    map (match_result (type file_info) file_name)
                        (filter (\<lambda>f. is_match G p f \<and> properties_dict f \<noteq> None)
                                (features_of file_info)))
                 all_data_sources)"

text \<open>A feature after the query: its \<open>properties\<close> member is the emitted record, if there
  is one.\<close>

definition stamped_feature :: "('s, 'r) shapely \<Rightarrow> point \<Rightarrow> string \<Rightarrow> string \<Rightarrow> json \<Rightarrow> json" where
  "stamped_feature G p data_type file_name feature =
     (case emitted G p data_type file_name feature of
        None \<Rightarrow> feature
      | Some r \<Rightarrow> py_setitem feature ''properties'' r)"

definition stamped_source ::
  "('s, 'r) shapely \<Rightarrow> point \<Rightarrow> string \<times> file_info \<Rightarrow> string \<times> file_info" where
  "stamped_source G p entry =
     (let file_name = fst entry; file_info = snd entry
      in (file_name,
          file_info\<lparr>data := py_setitem (data file_info) ''features''
             (JArr (map (stamped_feature G p (type file_info) file_name)
                        (features_of file_info)))\<rparr>))"

text \<open>A stored file without the features whose geometry the library cannot read.\<close>

definition drop_unreadable :: "('s, 'r) shapely \<Rightarrow> string \<times> file_info \<Rightarrow> string \<times> file_info" where
  "drop_unreadable G entry =
     (fst entry,
      (snd entry)\<lparr>data := py_setitem (data (snd entry)) ''features''
         (JArr (filter (\<lambda>f. readable_shape G f \<noteq> None) (features_of (snd entry))))\<rparr>)"

section \<open>A geometry of rectangles\<close>

text \<open>
  Modelled from the spec: an instance of the library on rectangles, for concrete inputs
  only (the library \<open>shapely\<close> is not part of the program). It reads a GeoJSON polygon
  whose single ring is a rectangle with sides parallel to the axes, given from its lower
  left corner counterclockwise, and nothing else. A rectangle contains the points
  strictly inside it. The buffer of a point is the circular region of the radius centred
  on the point, which a rectangle meets when its nearest point is no farther than the
  radius. (The library's buffer is a polygon of 64 sides inscribed in that circle: the
  two differ only for a rectangle whose nearest point is between 0.9988 and 1 away from
  the point. The examples keep far from that band.)
\<close>

type_synonym rect = "real \<times> real \<times> real \<times> real"

fun json_point :: "json \<Rightarrow> point option" where
  "json_point (JArr [JNum x, JNum y]) = Some (x, y)"
| "json_point j = None"

fun rect_of_ring :: "point list \<Rightarrow> rect option" where
  "rect_of_ring [(a, b), (c, d), (e, f), (g, h), (i, j)] =
     (if a < c \<and> b < f \<and> d = b \<and> e = c \<and> g = a \<and> h = f \<and> i = a \<and> j = b
      then Some (a, b, c, f) else None)"
| "rect_of_ring ring = None"

definition rect_shape :: "json \<Rightarrow> rect option" where
  "rect_shape geometry =
     (case (py_getitem geometry ''type'', py_getitem geometry ''coordinates'') of
        (Some (JStr t), Some (JArr [JArr ring])) \<Rightarrow>
          if t = ''Polygon'' then Option.bind (those (map json_point ring)) rect_of_ring
          else None
      | _ \<Rightarrow> None)"

fun rect_contains :: "rect \<Rightarrow> point \<Rightarrow> bool" where
  "rect_contains (x0, y0, x1, y1) (x, y) = (x0 < x \<and> x < x1 \<and> y0 < y \<and> y < y1)"

fun rect_intersects :: "rect \<Rightarrow> point \<times> real \<Rightarrow> bool" where
  "rect_intersects (x0, y0, x1, y1) ((x, y), radius) =
     (let dx = max (max (x0 - x) (x - x1)) 0;
          dy = max (max (y0 - y) (y - y1)) 0
      in 0 \<le> radius \<and> dx * dx + dy * dy \<le> radius * radius)"

definition rect_shapely :: "(rect, point \<times> real) shapely" where
  "rect_shapely =
     \<lparr>shape = rect_shape, contains = rect_contains, intersects = rect_intersects,
      buffer = (\<lambda>p distance. (p, distance))\<rparr>"

text \<open>The GeoJSON polygon of the rectangle from \<open>(x0, y0)\<close> to \<open>(x1, y1)\<close>.\<close>

definition rectangle :: "real \<Rightarrow> real \<Rightarrow> real \<Rightarrow> real \<Rightarrow> json" where
  "rectangle x0 y0 x1 y1 =
     JObj [(''type'', JStr ''Polygon''),
           (''coordinates'',
            JArr [JArr [JArr [JNum x0, JNum y0], JArr [JNum x1, JNum y0],
                        JArr [JNum x1, JNum y1], JArr [JNum x0, JNum y1],
                        JArr [JNum x0, JNum y0]]])]"

definition zone :: "json \<Rightarrow> (string \<times> json) list \<Rightarrow> json" where
  "zone geometry properties =
     JObj [(''type'', JStr ''Feature''), (''geometry'', geometry),
           (''properties'', JObj properties)]"

definition feature_collection :: "json list \<Rightarrow> json" where
  "feature_collection features =
     JObj [(''type'', JStr ''FeatureCollection''), (''features'', JArr features)]"

section \<open>The geometry of the specification\<close>

text \<open>
  Modelled from the spec: the operations \<open>contains\<close>, \<open>intersects\<close> and \<open>buffer\<close> of the
  library \<open>shapely\<close>, which the program calls and does not define. The specification
  speaks of a geometry that contains the exact point and of one that intersects the
  circular buffer region of radius one metre centred on the point. A geometry is the set
  of points of its interior and the set of those of its boundary; it contains a point
  that lies in its interior; two geometries intersect when they share a point; the
  buffer of a point is the closed disc around it. Coordinates are real numbers: the
  rounding of the library's floating point arithmetic is not modelled.
\<close>

record region =
  inner :: "point set"
  border :: "point set"

definition points :: "region \<Rightarrow> point set" where
  "points g = inner g \<union> border g"

definition sq_dist :: "point \<Rightarrow> point \<Rightarrow> real" where
  "sq_dist p q = (fst p - fst q) * (fst p - fst q) + (snd p - snd q) * (snd p - snd q)"

definition region_contains :: "region \<Rightarrow> point \<Rightarrow> bool" where
  "region_contains g p = (p \<in> inner g)"

definition region_intersects :: "region \<Rightarrow> region \<Rightarrow> bool" where
  "region_intersects g b = (points g \<inter> points b \<noteq> {})"

definition disc :: "point \<Rightarrow> real \<Rightarrow> region" where
  "disc p radius =
     \<lparr>inner = {q. 0 < radius \<and> sq_dist q p < radius * radius},
      border = {q. 0 \<le> radius \<and> sq_dist q p = radius * radius}\<rparr>"

definition region_shapely :: "(json \<Rightarrow> region option) \<Rightarrow> (region, region) shapely" where
  "region_shapely read =
     \<lparr>shape = read, contains = region_contains, intersects = region_intersects,
      buffer = disc\<rparr>"

text \<open>The open square from \<open>(0, 0)\<close> to \<open>(100, 100)\<close> with its four sides.\<close>

definition square100 :: region where
  "square100 =
     \<lparr>inner = {q. 0 < fst q \<and> fst q < 100 \<and> 0 < snd q \<and> snd q < 100},
      border = {q. 0 \<le> fst q \<and> fst q \<le> 100 \<and> 0 \<le> snd q \<and> snd q \<le> 100
                   \<and> (fst q = 0 \<or> fst q = 100 \<or> snd q = 0 \<or> snd q = 100)}\<rparr>"

section \<open>Example inputs\<close>

text \<open>\<open>str\<close> of \<open>None\<close> and of the booleans; the examples apply it to nothing else.\<close>

fun scalar_repr :: "json \<Rightarrow> string" where
  "scalar_repr JNull = ''None''"
| "scalar_repr (JBool True) = ''True''"
| "scalar_repr (JBool False) = ''False''"
| "scalar_repr j = []"

text \<open>
  Two loaded files. The first, of bats, has a zone around the point \<open>(50, 50)\<close> with a
  stake, a zone far from it, and a feature whose geometry is \<open>null\<close>; the second, of
  dragonflies, has one zone around the point.
\<close>

definition bats_document :: json where
  "bats_document =
     feature_collection
       [zone (rectangle 0 0 100 100) [(''t_enjeux'', JStr ''Fort'')],
        zone (rectangle 1000 1000 1100 1100) [(''t_enjeux'', JStr ''Faible'')],
        zone JNull [(''t_enjeux'', JStr ''Moyen'')]]"

definition dragonflies_document :: json where
  "dragonflies_document =
     feature_collection [zone (rectangle 40 40 60 60) [(''n_espece'', JStr ''Libellule'')]]"

definition example_sources :: data_sources where
  "example_sources =
     [(''bats.geojson'', \<lparr>data = bats_document, type = chiropteres\<rparr>),
      (''zones.json'', \<lparr>data = dragonflies_document, type = odonates\<rparr>)]"

text \<open>A file of shrikes, and the JSON document \<open>["type", "features"]\<close>, which is a list.\<close>

definition shrike_document :: json where
  "shrike_document =
     feature_collection
       [zone (rectangle 0 0 100 100) [(''n_espece'', JStr ''pie-grieche meridionale'')]]"

definition list_document :: json where
  "list_document = JArr [JStr ''type'', JStr ''features'']"

text \<open>The library with the first predicate taken away: the test of line 108 is then the
  second predicate alone.\<close>

definition without_contains :: "('s, 'r) shapely \<Rightarrow> ('s, 'r) shapely" where
  "without_contains G = G\<lparr>contains := (\<lambda>s p. False)\<rparr>"

text \<open>
  A zone around the point \<open>(50, 50)\<close> whose \<open>properties\<close> member is \<open>null\<close>, one that has
  no such member, and the files that hold them; a file of bats whose zone has no stake.
\<close>

definition unmapped_zone :: json where
  "unmapped_zone =
     JObj [(''type'', JStr ''Feature''), (''geometry'', rectangle 0 0 100 100),
           (''properties'', JNull)]"

definition bare_zone :: json where
  "bare_zone = JObj [(''type'', JStr ''Feature''), (''geometry'', rectangle 0 0 100 100)]"

definition unmapped_sources :: data_sources where
  "unmapped_sources =
     [(''odonates.json'', \<lparr>data = feature_collection [unmapped_zone], type = odonates\<rparr>)]"

definition bare_sources :: data_sources where
  "bare_sources =
     [(''chauve_souris.json'', \<lparr>data = feature_collection [bare_zone], type = chiropteres\<rparr>)]"

definition stakeless_sources :: data_sources where
  "stakeless_sources =
     [(''chauve_souris.json'',
       \<lparr>data = feature_collection
                 [zone (rectangle 0 0 100 100) [(''n_espece'', JStr ''grand murin'')]],
        type = chiropteres\<rparr>)]"

lemmas more_example_defs =
  unmapped_zone_def bare_zone_def unmapped_sources_def bare_sources_def stakeless_sources_def

lemmas example_defs =
  example_sources_def bats_document_def dragonflies_document_def feature_collection_def
  zone_def rectangle_def rect_shapely_def rect_shape_def shrike_document_def
  list_document_def

section \<open>Auxiliary facts\<close>

lemma startswith_prefix: "startswith s p = prefix p s"
  by (induction s p rule: startswith.induct) auto

lemma str_in_sublist: "str_in sub s = sublist sub s"
  by (induction s) (simp_all add: startswith_prefix sublist_Cons_right)

lemma str_in_append_left: "str_in (a @ b) s \<Longrightarrow> str_in a s"
proof -
  assume "str_in (a @ b) s"
  then obtain ps ss where "s = ps @ (a @ b) @ ss"
    by (auto simp: str_in_sublist sublist_def)
  then have "s = ps @ a @ (b @ ss)" by simp
  then have "sublist a s" unfolding sublist_def by blast
  then show ?thesis by (simp add: str_in_sublist)
qed

lemma griseche_grise: "str_in ''griseche'' n \<Longrightarrow> str_in ''grise'' n"
  using str_in_append_left [of "''grise''" "''che''" n] by simp

lemma detect_by_name_not_meridionale: "detect_by_name file_name \<noteq> pie_grieche_meridionale"
  unfolding detect_by_name_def Let_def
  using griseche_grise [of "lower file_name"]
  by (auto simp: label_defs)

lemma check_feature_snd:
  "snd (check_feature G p (buffer G p 1) dt fn f) = emitted G p dt fn f"
  by (auto simp: check_feature_def emitted_def is_match_def readable_shape_def properties_dict_def Let_def
      split: option.splits json.splits)

lemma check_feature_fst:
  "fst (check_feature G p (buffer G p 1) dt fn f) = stamped_feature G p dt fn f"
  by (auto simp: check_feature_def stamped_feature_def emitted_def is_match_def readable_shape_def properties_dict_def Let_def
      split: option.splits json.splits)

lemma check_features_eq:
  "check_features G p (buffer G p 1) dt fn fs =
     (map (stamped_feature G p dt fn) fs, List.map_filter (emitted G p dt fn) fs)"
proof (induction fs)
  case Nil
  show ?case by simp
next
  case (Cons f fs)
  obtain f' r where fr: "check_feature G p (buffer G p 1) dt fn f = (f', r)"
    by (cases "check_feature G p (buffer G p 1) dt fn f")
  have "f' = stamped_feature G p dt fn f" "r = emitted G p dt fn f"
    using check_feature_fst [of G p dt fn f] check_feature_snd [of G p dt fn f] fr by simp_all
  with Cons fr show ?case
    by (simp split: option.splits)
qed


lemma check_sources_eq:
  assumes "\<forall>(file_name, file_info) \<in> set srcs. feature_list file_info \<noteq> None"
  shows "check_sources G p srcs =
           (map (stamped_source G p) srcs,
            Some (concat (map (\<lambda>(file_name, file_info).
                    List.map_filter (emitted G p (type file_info) file_name) (features_of file_info))
                  srcs)))"
  using assms
proof (induction srcs)
  case Nil
  show ?case by simp
next
  case (Cons entry srcs)
  obtain fn fi where e: "entry = (fn, fi)" by (cases entry)
  from Cons.prems e obtain fs where fs: "feature_list fi = Some fs" by auto
  then have g: "py_getitem (data fi) ''features'' = Some (JArr fs)"
    by (auto simp: feature_list_def split: option.splits json.splits)
  have fo: "features_of fi = fs" using fs by (simp add: features_of_def)
  have ih: "check_sources G p srcs =
           (map (stamped_source G p) srcs,
            Some (concat (map (\<lambda>(file_name, file_info).
                    List.map_filter (emitted G p (type file_info) file_name) (features_of file_info))
                  srcs)))"
    using Cons by simp
  show ?case
    by (simp add: e g fo ih check_features_eq stamped_source_def Let_def)
qed

lemma emitted_exactly:
  "emitted G p dt fn f =
     (if is_match G p f \<and> properties_dict f \<noteq> None then Some (match_result dt fn f) else None)"
  by (auto simp: emitted_def match_result_def)

lemma map_filter_emitted_records:
  "List.map_filter (emitted G p dt fn) fs
     = map (match_result dt fn) (filter (\<lambda>f. is_match G p f \<and> properties_dict f \<noteq> None) fs)"
  by (induction fs) (simp_all add: emitted_exactly)

lemma emitted_lists_all_records:
  "concat (map (\<lambda>(file_name, file_info).
            List.map_filter (emitted G p (type file_info) file_name) (features_of file_info)) srcs)
     = all_records G p srcs"
  unfolding all_records_def map_filter_emitted_records by (rule refl)

text \<open>
  C1, as the code has it. For every query point and every collection of loaded files whose
  \<open>features\<close> members are lists, \<open>is_in_pna\<close> tests every feature of every file and stops
  at none: the list it returns holds one record for each feature whose shape contains the
  point or meets the buffer of one metre around it and whose \<open>properties\<close> member is a
  mapping, and for no other, the files in the order of the collection and the features of
  a file in the order of its list. A feature that matches and has no such mapping yields
  no record. The flag says whether there is a record, and no error is shown.
\<close>

theorem is_in_pna_returns_all_records:
  assumes "\<forall>(file_name, file_info) \<in> set all_data_sources. feature_list file_info \<noteq> None"
  shows "results (is_in_pna G lat lon x_l93 y_l93 all_data_sources)
           = (if all_records G (x_l93, y_l93) all_data_sources = [] then None
              else Some (all_records G (x_l93, y_l93) all_data_sources))
         \<and> in_pna (is_in_pna G lat lon x_l93 y_l93 all_data_sources)
             = (all_records G (x_l93, y_l93) all_data_sources \<noteq> [])
         \<and> \<not> error_shown (is_in_pna G lat lon x_l93 y_l93 all_data_sources)"
proof -
  have "check_sources G (x_l93, y_l93) all_data_sources
          = (map (stamped_source G (x_l93, y_l93)) all_data_sources,
             Some (all_records G (x_l93, y_l93) all_data_sources))"
    using check_sources_eq [OF assms, of G "(x_l93, y_l93)"]
    by (simp only: emitted_lists_all_records)
  then show ?thesis by (simp add: is_in_pna_def)
qed

lemma example_lists: "\<forall>(file_name, file_info) \<in> set example_sources. feature_list file_info \<noteq> None"
  by (simp add: example_defs feature_list_def)

lemma example_records:
  "all_records rect_shapely (50, 50) example_sources =
     [JObj [(''t_enjeux'', JStr ''Fort''), (enjeu_detaille, JStr ''Fort''),
            (''type_pna'', JStr chiropteres), (''fichier_source'', JStr ''bats.geojson'')],
      JObj [(''n_espece'', JStr ''Libellule''), (''type_pna'', JStr odonates),
            (''fichier_source'', JStr ''zones.json'')]]"
  by (simp add: all_records_def example_defs features_of_def feature_list_def is_match_def
      readable_shape_def match_result_def properties_dict_def annotate_def label_defs)

theorem is_in_pna_returns_all_records_witness:
  "results (is_in_pna rect_shapely 0 0 50 50 example_sources) =
     Some [JObj [(''t_enjeux'', JStr ''Fort''), (enjeu_detaille, JStr ''Fort''),
                 (''type_pna'', JStr chiropteres), (''fichier_source'', JStr ''bats.geojson'')],
           JObj [(''n_espece'', JStr ''Libellule''), (''type_pna'', JStr odonates),
                 (''fichier_source'', JStr ''zones.json'')]]
   \<and> in_pna (is_in_pna rect_shapely 0 0 50 50 example_sources)"
  using is_in_pna_returns_all_records [OF example_lists, of rect_shapely 0 0 50 50]
  by (simp add: example_records)

theorem is_in_pna_returns_all_records_counterexample:
  "fst (load_files scalar_repr detection_automatique
          [\<lparr>name = ''odonates.json'', parsed = Some (feature_collection [unmapped_zone])\<rparr>])
     = unmapped_sources
   \<and> file_summary unmapped_sources = Some [(''odonates.json'', odonates, 1)]
   \<and> is_match rect_shapely (50, 50) unmapped_zone
   \<and> all_matches rect_shapely (50, 50) unmapped_sources \<noteq> []
   \<and> results (is_in_pna rect_shapely 0 0 50 50 unmapped_sources) = None
   \<and> in_pna (is_in_pna rect_shapely 0 0 50 50 unmapped_sources) = False"
  by (simp add: load_files_def load_file_def file_extension_def last_dot_part_def
      current_type_def detect_by_name_def is_geojson_def lower_def lower_char_def
      file_summary_def is_match_def readable_shape_def all_matches_def features_of_def
      feature_list_def is_in_pna_def check_feature_def more_example_defs example_defs
      label_defs Let_def)

lemma emitted_JStr: "emitted G p dt fn (JStr s) = None"
  by (simp add: emitted_def is_match_def readable_shape_def)

lemma iterated_features:
  assumes "Option.bind (py_getitem (data fi) ''features'') py_iter = Some fs" and "f \<in> set fs"
  shows "f \<in> set (features_of fi) \<or> (\<exists>s. f = JStr s)"
proof -
  from assms(1) obtain v where v: "py_getitem (data fi) ''features'' = Some v" "py_iter v = Some fs"
    by (auto simp: bind_eq_Some_conv)
  show ?thesis
  proof (cases v)
    case (JArr xs)
    with v assms(2) show ?thesis by (simp add: features_of_def feature_list_def)
  next
    case (JStr s)
    with v assms(2) show ?thesis by auto
  next
    case (JObj kvs)
    with v assms(2) show ?thesis by auto
  qed (use v in simp_all)
qed

lemma map_filter_empty: "(\<forall>x \<in> set xs. f x = None) \<Longrightarrow> List.map_filter f xs = []"
  by (induction xs) simp_all

lemma set_map_filter: "set (List.map_filter f xs) = {y. \<exists>x \<in> set xs. f x = Some y}"
  by (induction xs) (auto split: option.splits)

lemma check_sources_found:
  assumes "snd (check_sources G p srcs) = Some rs" and "r \<in> set rs"
  shows "\<exists>file_name file_info f. (file_name, file_info) \<in> set srcs
           \<and> f \<in> set (features_of file_info)
           \<and> emitted G p (type file_info) file_name f = Some r"
  using assms
proof (induction srcs arbitrary: rs)
  case Nil
  then show ?case by simp
next
  case (Cons entry srcs)
  obtain fn fi where e: "entry = (fn, fi)" by (cases entry)
  show ?case
  proof (cases "Option.bind (py_getitem (data fi) ''features'') py_iter")
    case None
    with Cons.prems e show ?thesis by simp
  next
    case (Some fs)
    obtain after rest where cs: "check_sources G p srcs = (after, rest)"
      by (cases "check_sources G p srcs")
    from Cons.prems(1) e Some cs obtain rs' where
      rest: "rest = Some rs'" and
      rs: "rs = List.map_filter (emitted G p (type fi) fn) fs @ rs'"
      by (auto simp: check_features_eq Let_def split: prod.splits)
    from Cons.prems(2) rs consider
      (here) "r \<in> set (List.map_filter (emitted G p (type fi) fn) fs)" | (later) "r \<in> set rs'"
      by auto
    then show ?thesis
    proof cases
      case here
      then obtain f where f: "f \<in> set fs" "emitted G p (type fi) fn f = Some r"
        by (auto simp: set_map_filter)
      with iterated_features [OF Some f(1)] have "f \<in> set (features_of fi)"
        by (auto simp: emitted_JStr)
      with f e show ?thesis by auto
    next
      case later
      with Cons.IH [of rs'] cs rest obtain file_name file_info f where
        "(file_name, file_info) \<in> set srcs" "f \<in> set (features_of file_info)"
        "emitted G p (type file_info) file_name f = Some r"
        by auto
      then show ?thesis by auto
    qed
  qed
qed

lemma emitted_None: "\<not> is_match G p f \<Longrightarrow> emitted G p dt fn f = None"
  by (simp add: emitted_def)

text \<open>
  C2, as the code has it. For every query point and every collection of loaded files, if
  no feature of any file is a match, \<open>is_in_pna\<close> returns the flag false with \<open>None\<close>
  in the place of the list (not with an empty list).
\<close>

theorem is_in_pna_without_match:
  assumes "\<forall>(file_name, file_info) \<in> set all_data_sources.
             \<forall>f \<in> set (features_of file_info). \<not> is_match G (x_l93, y_l93) f"
  shows "in_pna (is_in_pna G lat lon x_l93 y_l93 all_data_sources) = False
         \<and> results (is_in_pna G lat lon x_l93 y_l93 all_data_sources) = None"
proof -
  obtain after found where cs: "check_sources G (x_l93, y_l93) all_data_sources = (after, found)"
    by (cases "check_sources G (x_l93, y_l93) all_data_sources")
  have "found = None \<or> found = Some []"
  proof (cases found)
    case None
    then show ?thesis by simp
  next
    case (Some rs)
    have "rs = []"
    proof (rule ccontr)
      assume "rs \<noteq> []"
      then obtain r where "r \<in> set rs" by (cases rs) auto
      with check_sources_found [of G "(x_l93, y_l93)" all_data_sources rs r] cs Some
      obtain file_name file_info f where
        "(file_name, file_info) \<in> set all_data_sources" "f \<in> set (features_of file_info)"
        "emitted G (x_l93, y_l93) (type file_info) file_name f = Some r"
        by auto
      with assms show False by (auto simp: emitted_def split: if_splits)
    qed
    with Some show ?thesis by simp
  qed
  with cs show ?thesis by (auto simp: is_in_pna_def)
qed

lemma example_far:
  "\<forall>(file_name, file_info) \<in> set example_sources.
     \<forall>f \<in> set (features_of file_info). \<not> is_match rect_shapely (5000, 5000) f"
  by (simp add: example_defs features_of_def feature_list_def is_match_def readable_shape_def)

theorem is_in_pna_without_match_witness:
  "in_pna (is_in_pna rect_shapely 0 0 5000 5000 example_sources) = False
   \<and> results (is_in_pna rect_shapely 0 0 5000 5000 example_sources) = None"
  using is_in_pna_without_match [OF example_far, of 0 0] by simp

theorem is_in_pna_without_match_counterexample:
  "all_matches rect_shapely (5000, 5000) example_sources = []
   \<and> in_pna (is_in_pna rect_shapely 0 0 5000 5000 example_sources) = False
   \<and> results (is_in_pna rect_shapely 0 0 5000 5000 example_sources) \<noteq> Some []"
  by (simp add: all_matches_def is_in_pna_def check_feature_def example_defs features_of_def
      feature_list_def is_match_def readable_shape_def)

lemma getitem_setitem_same:
  "py_getitem d k \<noteq> None \<Longrightarrow> py_getitem (py_setitem d k v) k = Some v"
  by (cases d) (simp_all add: update_conv')

lemma getitem_setitem_other:
  "k' \<noteq> k \<Longrightarrow> py_getitem (py_setitem d k v) k' = py_getitem d k'"
  by (cases d) (simp_all add: update_conv')

lemma emitted_has_properties:
  "emitted G p dt fn f = Some r \<Longrightarrow> py_getitem f ''properties'' \<noteq> None"
  by (auto simp: emitted_def properties_dict_def split: if_splits option.splits)

text \<open>
  C4, as the code has it. For every query on a collection of loaded files whose
  \<open>features\<close> members are lists, \<open>is_in_pna\<close> changes the collection in one way only:
  the attribute mapping stored in each feature that yields a record becomes that record,
  which is the stored mapping itself with the derived fields assigned into it, not a
  copy. A feature that yields no record stays as it is; so do the other members of
  every feature (its geometry among them) and the name and the type of every file.
\<close>

theorem is_in_pna_stamps_the_stored_mappings:
  assumes "\<forall>(file_name, file_info) \<in> set all_data_sources. feature_list file_info \<noteq> None"
  shows "sources (is_in_pna G lat lon x_l93 y_l93 all_data_sources)
           = map (stamped_source G (x_l93, y_l93)) all_data_sources
         \<and> map fst (sources (is_in_pna G lat lon x_l93 y_l93 all_data_sources))
             = map fst all_data_sources
         \<and> map (\<lambda>entry. type (snd entry)) (sources (is_in_pna G lat lon x_l93 y_l93 all_data_sources))
             = map (\<lambda>entry. type (snd entry)) all_data_sources
         \<and> (\<forall>data_type file_name f.
              emitted G (x_l93, y_l93) data_type file_name f = None \<longrightarrow>
              stamped_feature G (x_l93, y_l93) data_type file_name f = f)
         \<and> (\<forall>data_type file_name f r.
              emitted G (x_l93, y_l93) data_type file_name f = Some r \<longrightarrow>
              py_getitem (stamped_feature G (x_l93, y_l93) data_type file_name f) ''properties''
                = Some r
              \<and> (\<forall>k. k \<noteq> ''properties'' \<longrightarrow>
                    py_getitem (stamped_feature G (x_l93, y_l93) data_type file_name f) k
                      = py_getitem f k))"
proof -
  have after: "sources (is_in_pna G lat lon x_l93 y_l93 all_data_sources)
           = map (stamped_source G (x_l93, y_l93)) all_data_sources"
    using check_sources_eq [OF assms, of G "(x_l93, y_l93)"] by (simp add: is_in_pna_def)
  have names: "map fst (map (stamped_source G (x_l93, y_l93)) all_data_sources)
                 = map fst all_data_sources"
    by (simp add: stamped_source_def Let_def)
  have types: "map (\<lambda>entry. type (snd entry)) (map (stamped_source G (x_l93, y_l93)) all_data_sources)
                 = map (\<lambda>entry. type (snd entry)) all_data_sources"
    by (simp add: stamped_source_def Let_def comp_def)
  have unchanged: "stamped_feature G (x_l93, y_l93) data_type file_name f = f"
    if "emitted G (x_l93, y_l93) data_type file_name f = None" for data_type file_name f
    using that by (simp add: stamped_feature_def)
  have changed: "py_getitem (stamped_feature G (x_l93, y_l93) data_type file_name f) ''properties''
                = Some r
              \<and> (\<forall>k. k \<noteq> ''properties'' \<longrightarrow>
                    py_getitem (stamped_feature G (x_l93, y_l93) data_type file_name f) k
                      = py_getitem f k)"
    if "emitted G (x_l93, y_l93) data_type file_name f = Some r" for data_type file_name f r
    using that emitted_has_properties [OF that]
    by (simp add: stamped_feature_def getitem_setitem_same getitem_setitem_other)
  from after names types unchanged changed show ?thesis by simp
qed

lemma example_stamped:
  "map (\<lambda>entry. map properties_dict (features_of (snd entry)))
       (map (stamped_source rect_shapely (50, 50)) example_sources) =
     [[Some [(''t_enjeux'', JStr ''Fort''), (enjeu_detaille, JStr ''Fort''),
             (''type_pna'', JStr chiropteres), (''fichier_source'', JStr ''bats.geojson'')],
       Some [(''t_enjeux'', JStr ''Faible'')],
       Some [(''t_enjeux'', JStr ''Moyen'')]],
      [Some [(''n_espece'', JStr ''Libellule''), (''type_pna'', JStr odonates),
             (''fichier_source'', JStr ''zones.json'')]]]"
  by (simp add: stamped_source_def stamped_feature_def emitted_def is_match_def
      readable_shape_def properties_dict_def features_of_def feature_list_def annotate_def
      example_defs label_defs Let_def)

theorem is_in_pna_stamps_the_stored_mappings_witness:
  "map (\<lambda>entry. map properties_dict (features_of (snd entry)))
       (sources (is_in_pna rect_shapely 0 0 50 50 example_sources)) =
     [[Some [(''t_enjeux'', JStr ''Fort''), (enjeu_detaille, JStr ''Fort''),
             (''type_pna'', JStr chiropteres), (''fichier_source'', JStr ''bats.geojson'')],
       Some [(''t_enjeux'', JStr ''Faible'')],
       Some [(''t_enjeux'', JStr ''Moyen'')]],
      [Some [(''n_espece'', JStr ''Libellule''), (''type_pna'', JStr odonates),
             (''fichier_source'', JStr ''zones.json'')]]]"
proof -
  have "sources (is_in_pna rect_shapely 0 0 50 50 example_sources)
          = map (stamped_source rect_shapely (50, 50)) example_sources"
    using is_in_pna_stamps_the_stored_mappings [OF example_lists, of rect_shapely 0 0 50 50]
    by blast
  then show ?thesis by (simp only: example_stamped)
qed

theorem is_in_pna_stamps_the_stored_mappings_counterexample:
  "map (\<lambda>entry. map properties_dict (features_of (snd entry)))
       (sources (is_in_pna rect_shapely 0 0 50 50 example_sources))
   \<noteq> map (\<lambda>entry. map properties_dict (features_of (snd entry))) example_sources"
  by (simp add: is_in_pna_def check_feature_def properties_dict_def features_of_def
      feature_list_def annotate_def example_defs label_defs Let_def)

lemma drop_unreadable_lists:
  assumes "\<forall>(file_name, file_info) \<in> set srcs. feature_list file_info \<noteq> None"
  shows "\<forall>(file_name, file_info) \<in> set (map (drop_unreadable G) srcs). feature_list file_info \<noteq> None"
proof -
  have "feature_list (snd (drop_unreadable G e)) \<noteq> None" if "e \<in> set srcs" for e
  proof -
    from assms that have "feature_list (snd e) \<noteq> None" by (cases e) auto
    then have "py_getitem (data (snd e)) ''features'' \<noteq> None"
      by (auto simp: feature_list_def split: option.splits)
    then show ?thesis
      by (simp add: drop_unreadable_def feature_list_def getitem_setitem_same)
  qed
  then have "\<forall>e' \<in> set (map (drop_unreadable G) srcs). feature_list (snd e') \<noteq> None"
    by auto
  then show ?thesis by (auto simp: split_beta)
qed

lemma drop_unreadable_features:
  assumes "feature_list (snd e) \<noteq> None"
  shows "features_of (snd (drop_unreadable G e))
           = filter (\<lambda>f. readable_shape G f \<noteq> None) (features_of (snd e))"
proof -
  from assms have "py_getitem (data (snd e)) ''features'' \<noteq> None"
    by (auto simp: feature_list_def split: option.splits)
  then show ?thesis
    by (simp add: drop_unreadable_def features_of_def [of "_\<lparr>data := _\<rparr>"] feature_list_def
        getitem_setitem_same)
qed

lemma emitted_unreadable: "readable_shape G f = None \<Longrightarrow> emitted G p dt fn f = None"
  by (simp add: emitted_def is_match_def)

lemma map_filter_readable:
  "List.map_filter (emitted G p dt fn) (filter (\<lambda>f. readable_shape G f \<noteq> None) fs)
     = List.map_filter (emitted G p dt fn) fs"
proof (induction fs)
  case Nil
  show ?case by simp
next
  case (Cons f fs)
  show ?case
  proof (cases "readable_shape G f")
    case None
    then have "emitted G p dt fn f = None" by (rule emitted_unreadable)
    with None Cons show ?thesis by simp
  next
    case (Some s)
    with Cons show ?thesis by (simp split: option.splits)
  qed
qed

lemma found_without_unreadable:
  assumes "\<forall>(file_name, file_info) \<in> set srcs. feature_list file_info \<noteq> None"
  shows "concat (map (\<lambda>(file_name, file_info).
            List.map_filter (emitted G p (type file_info) file_name) (features_of file_info))
          (map (drop_unreadable G) srcs))
       = concat (map (\<lambda>(file_name, file_info).
            List.map_filter (emitted G p (type file_info) file_name) (features_of file_info)) srcs)"
  using assms
proof (induction srcs)
  case Nil
  show ?case by simp
next
  case (Cons e srcs)
  then have l: "feature_list (snd e) \<noteq> None" by (cases e) auto
  obtain fn fi where e: "e = (fn, fi)" by (cases e)
  have fo: "features_of (snd (drop_unreadable G e))
           = filter (\<lambda>f. readable_shape G f \<noteq> None) (features_of fi)"
    using drop_unreadable_features [OF l, of G] e by simp
  have dn: "fst (drop_unreadable G e) = fn" "type (snd (drop_unreadable G e)) = type fi"
    by (simp_all add: drop_unreadable_def e)
  have here: "(case drop_unreadable G e of (file_name, file_info) \<Rightarrow>
            List.map_filter (emitted G p (type file_info) file_name) (features_of file_info))
        = (case e of (file_name, file_info) \<Rightarrow>
            List.map_filter (emitted G p (type file_info) file_name) (features_of file_info))"
    unfolding split_beta fo dn map_filter_readable by (simp add: e)
  from Cons have "concat (map (\<lambda>(file_name, file_info).
            List.map_filter (emitted G p (type file_info) file_name) (features_of file_info))
          (map (drop_unreadable G) srcs))
       = concat (map (\<lambda>(file_name, file_info).
            List.map_filter (emitted G p (type file_info) file_name) (features_of file_info)) srcs)"
    by simp
  with here show ?case by simp
qed

lemma matching_feature_is_found:
  assumes "\<forall>(file_name, file_info) \<in> set srcs. feature_list file_info \<noteq> None"
    and "(fn, fi) \<in> set srcs" and "f \<in> set (features_of fi)"
    and "is_match G p f" and "properties_dict f = Some kvs"
  shows "\<exists>rs. snd (check_sources G p srcs) = Some rs \<and> JObj (annotate (type fi) fn kvs) \<in> set rs"
proof -
  have "emitted G p (type fi) fn f = Some (JObj (annotate (type fi) fn kvs))"
    using assms(4,5) by (simp add: emitted_def)
  with assms(3) have "JObj (annotate (type fi) fn kvs)
      \<in> set (List.map_filter (emitted G p (type fi) fn) (features_of fi))"
    by (auto simp: set_map_filter)
  with assms(2) have "JObj (annotate (type fi) fn kvs)
      \<in> set (concat (map (\<lambda>(file_name, file_info).
            List.map_filter (emitted G p (type file_info) file_name) (features_of file_info)) srcs))"
    by force
  with check_sources_eq [OF assms(1), of G p] show ?thesis by simp
qed

lemma matching_feature_is_returned:
  assumes "\<forall>(file_name, file_info) \<in> set srcs. feature_list file_info \<noteq> None"
    and "(fn, fi) \<in> set srcs" and "f \<in> set (features_of fi)"
    and "is_match G (x, y) f" and "properties_dict f = Some kvs"
  shows "in_pna (is_in_pna G lat lon x y srcs)
         \<and> (\<exists>rs. results (is_in_pna G lat lon x y srcs) = Some rs
                \<and> JObj (annotate (type fi) fn kvs) \<in> set rs)"
proof -
  from matching_feature_is_found [OF assms] obtain rs where
    rs: "snd (check_sources G (x, y) srcs) = Some rs" "JObj (annotate (type fi) fn kvs) \<in> set rs"
    by blast
  then have "rs \<noteq> []" by auto
  with rs show ?thesis
    by (cases "check_sources G (x, y) srcs") (simp add: is_in_pna_def)
qed

text \<open>
  C5. For every collection of loaded files whose \<open>features\<close> members are lists,
  \<open>is_in_pna\<close> skips the features whose geometry cannot be read as a shape and nothing
  else because of them. It shows no error. Every valid feature that matches (its geometry
  is read, and it has an attribute mapping), in the same file as an unreadable feature
  or in another, has its record in the list returned, and the flag is true. The flag and
  the records are those returned on the collection without the unreadable features. One
  unreadable feature never ends the query.
\<close>

theorem is_in_pna_skips_unreadable_features:
  assumes "\<forall>(file_name, file_info) \<in> set all_data_sources. feature_list file_info \<noteq> None"
  shows "results (is_in_pna G lat lon x_l93 y_l93 all_data_sources)
           = results (is_in_pna G lat lon x_l93 y_l93 (map (drop_unreadable G) all_data_sources))
         \<and> in_pna (is_in_pna G lat lon x_l93 y_l93 all_data_sources)
             = in_pna (is_in_pna G lat lon x_l93 y_l93 (map (drop_unreadable G) all_data_sources))
         \<and> \<not> error_shown (is_in_pna G lat lon x_l93 y_l93 all_data_sources)
         \<and> (\<forall>(file_name, file_info) \<in> set all_data_sources.
              \<forall>f \<in> set (features_of file_info). \<forall>kvs.
                is_match G (x_l93, y_l93) f \<longrightarrow> properties_dict f = Some kvs \<longrightarrow>
                in_pna (is_in_pna G lat lon x_l93 y_l93 all_data_sources)
                \<and> (\<exists>rs. results (is_in_pna G lat lon x_l93 y_l93 all_data_sources) = Some rs
                       \<and> JObj (annotate (type file_info) file_name kvs) \<in> set rs))"
proof -
  have same: "results (is_in_pna G lat lon x_l93 y_l93 all_data_sources)
           = results (is_in_pna G lat lon x_l93 y_l93 (map (drop_unreadable G) all_data_sources))
         \<and> in_pna (is_in_pna G lat lon x_l93 y_l93 all_data_sources)
             = in_pna (is_in_pna G lat lon x_l93 y_l93 (map (drop_unreadable G) all_data_sources))
         \<and> \<not> error_shown (is_in_pna G lat lon x_l93 y_l93 all_data_sources)"
    using check_sources_eq [OF assms, of G "(x_l93, y_l93)"]
      check_sources_eq [OF drop_unreadable_lists [OF assms, of G], of G "(x_l93, y_l93)"]
      found_without_unreadable [OF assms, of G "(x_l93, y_l93)"]
    by (simp add: is_in_pna_def)
  have returned: "in_pna (is_in_pna G lat lon x_l93 y_l93 all_data_sources)
                \<and> (\<exists>rs. results (is_in_pna G lat lon x_l93 y_l93 all_data_sources) = Some rs
                       \<and> JObj (annotate (type file_info) file_name kvs) \<in> set rs)"
    if "(file_name, file_info) \<in> set all_data_sources" "f \<in> set (features_of file_info)"
      "is_match G (x_l93, y_l93) f" "properties_dict f = Some kvs"
    for file_name file_info f kvs
    using matching_feature_is_returned [OF assms that] .
  from same returned show ?thesis by blast
qed

lemma example_bats_zone:
  "(''bats.geojson'', \<lparr>data = bats_document, type = chiropteres\<rparr>) \<in> set example_sources"
  "zone (rectangle 0 0 100 100) [(''t_enjeux'', JStr ''Fort'')]
     \<in> set (features_of \<lparr>data = bats_document, type = chiropteres\<rparr>)"
  "is_match rect_shapely (50, 50) (zone (rectangle 0 0 100 100) [(''t_enjeux'', JStr ''Fort'')])"
  "properties_dict (zone (rectangle 0 0 100 100) [(''t_enjeux'', JStr ''Fort'')])
     = Some [(''t_enjeux'', JStr ''Fort'')]"
  "readable_shape rect_shapely (zone JNull [(''t_enjeux'', JStr ''Moyen'')]) = None"
  "zone JNull [(''t_enjeux'', JStr ''Moyen'')]
     \<in> set (features_of \<lparr>data = bats_document, type = chiropteres\<rparr>)"
  by (simp_all add: example_defs features_of_def feature_list_def is_match_def
      readable_shape_def properties_dict_def)

lemma example_dragonflies_zone:
  "(''zones.json'', \<lparr>data = dragonflies_document, type = odonates\<rparr>) \<in> set example_sources"
  "zone (rectangle 40 40 60 60) [(''n_espece'', JStr ''Libellule'')]
     \<in> set (features_of \<lparr>data = dragonflies_document, type = odonates\<rparr>)"
  "is_match rect_shapely (50, 50) (zone (rectangle 40 40 60 60) [(''n_espece'', JStr ''Libellule'')])"
  "properties_dict (zone (rectangle 40 40 60 60) [(''n_espece'', JStr ''Libellule'')])
     = Some [(''n_espece'', JStr ''Libellule'')]"
  by (simp_all add: example_defs features_of_def feature_list_def is_match_def
      readable_shape_def properties_dict_def)

lemma example_annotated:
  "annotate chiropteres ''bats.geojson'' [(''t_enjeux'', JStr ''Fort'')]
     = [(''t_enjeux'', JStr ''Fort''), (enjeu_detaille, JStr ''Fort''),
        (''type_pna'', JStr chiropteres), (''fichier_source'', JStr ''bats.geojson'')]"
  "annotate odonates ''zones.json'' [(''n_espece'', JStr ''Libellule'')]
     = [(''n_espece'', JStr ''Libellule''), (''type_pna'', JStr odonates),
        (''fichier_source'', JStr ''zones.json'')]"
  by (simp_all add: annotate_def label_defs)

theorem is_in_pna_skips_unreadable_features_witness:
  "zone JNull [(''t_enjeux'', JStr ''Moyen'')]
     \<in> set (features_of \<lparr>data = bats_document, type = chiropteres\<rparr>)
   \<and> readable_shape rect_shapely (zone JNull [(''t_enjeux'', JStr ''Moyen'')]) = None
   \<and> \<not> error_shown (is_in_pna rect_shapely 0 0 50 50 example_sources)
   \<and> in_pna (is_in_pna rect_shapely 0 0 50 50 example_sources)
   \<and> (\<exists>rs. results (is_in_pna rect_shapely 0 0 50 50 example_sources) = Some rs
          \<and> JObj [(''t_enjeux'', JStr ''Fort''), (enjeu_detaille, JStr ''Fort''),
                  (''type_pna'', JStr chiropteres), (''fichier_source'', JStr ''bats.geojson'')]
              \<in> set rs)
   \<and> (\<exists>rs. results (is_in_pna rect_shapely 0 0 50 50 example_sources) = Some rs
          \<and> JObj [(''n_espece'', JStr ''Libellule''), (''type_pna'', JStr odonates),
                  (''fichier_source'', JStr ''zones.json'')]
              \<in> set rs)"
proof -
  note t = is_in_pna_skips_unreadable_features [OF example_lists, of rect_shapely 0 0 50 50]
  from t have quiet: "\<not> error_shown (is_in_pna rect_shapely 0 0 50 50 example_sources)"
    by blast
  from t have fw: "\<forall>(file_name, file_info) \<in> set example_sources.
              \<forall>f \<in> set (features_of file_info). \<forall>kvs.
                is_match rect_shapely (50, 50) f \<longrightarrow> properties_dict f = Some kvs \<longrightarrow>
                in_pna (is_in_pna rect_shapely 0 0 50 50 example_sources)
                \<and> (\<exists>rs. results (is_in_pna rect_shapely 0 0 50 50 example_sources) = Some rs
                       \<and> JObj (annotate (type file_info) file_name kvs) \<in> set rs)"
    by blast
  from bspec [OF fw example_bats_zone(1)] example_bats_zone(2,3,4)
  have bats: "in_pna (is_in_pna rect_shapely 0 0 50 50 example_sources)
      \<and> (\<exists>rs. results (is_in_pna rect_shapely 0 0 50 50 example_sources) = Some rs
             \<and> JObj (annotate chiropteres ''bats.geojson'' [(''t_enjeux'', JStr ''Fort'')])
                 \<in> set rs)"
    by auto
  from bspec [OF fw example_dragonflies_zone(1)] example_dragonflies_zone(2,3,4)
  have flies: "\<exists>rs. results (is_in_pna rect_shapely 0 0 50 50 example_sources) = Some rs
             \<and> JObj (annotate odonates ''zones.json'' [(''n_espece'', JStr ''Libellule'')])
                 \<in> set rs"
    by auto
  from quiet bats flies example_bats_zone(5,6) show ?thesis
    by (simp only: example_annotated) simp
qed

lemma annotate_type_pna:
  "map_of (annotate data_type file_name kvs) ''type_pna'' = Some (JStr data_type)"
  by (simp add: annotate_def Let_def update_conv')

lemma annotate_fichier_source:
  "map_of (annotate data_type file_name kvs) ''fichier_source'' = Some (JStr file_name)"
  by (simp add: annotate_def Let_def update_conv')

lemma annotate_enjeu:
  "map_of (annotate chiropteres file_name kvs) enjeu_detaille
     = Some (case map_of kvs ''t_enjeux'' of None \<Rightarrow> JStr indetermine | Some enjeu \<Rightarrow> enjeu)"
  by (simp add: annotate_def Let_def update_conv' enjeu_detaille_def)

lemma returned_record_is_stamped:
  assumes "results (is_in_pna G lat lon x_l93 y_l93 all_data_sources) = Some rs"
    and "r \<in> set rs"
  shows "\<exists>file_name file_info f kvs.
           (file_name, file_info) \<in> set all_data_sources
           \<and> f \<in> set (features_of file_info)
           \<and> is_match G (x_l93, y_l93) f
           \<and> properties_dict f = Some kvs
           \<and> r = JObj (annotate (type file_info) file_name kvs)
           \<and> py_getitem r ''type_pna'' = Some (JStr (type file_info))
           \<and> py_getitem r ''fichier_source'' = Some (JStr file_name)
           \<and> (type file_info = chiropteres \<longrightarrow>
                py_getitem r enjeu_detaille
                  = Some (case map_of kvs ''t_enjeux'' of
                            None \<Rightarrow> JStr indetermine
                          | Some enjeu \<Rightarrow> enjeu))"
proof -
  obtain after found where cs: "check_sources G (x_l93, y_l93) all_data_sources = (after, found)"
    by (cases "check_sources G (x_l93, y_l93) all_data_sources")
  with assms(1) have "found = Some rs"
    by (auto simp: is_in_pna_def split: option.splits if_splits)
  with cs check_sources_found [of G "(x_l93, y_l93)" all_data_sources rs r] assms(2)
  obtain file_name file_info f where
    1: "(file_name, file_info) \<in> set all_data_sources" and
    2: "f \<in> set (features_of file_info)" and
    3: "emitted G (x_l93, y_l93) (type file_info) file_name f = Some r"
    by auto
  from 3 obtain kvs where
    4: "is_match G (x_l93, y_l93) f" and
    5: "properties_dict f = Some kvs" and
    6: "r = JObj (annotate (type file_info) file_name kvs)"
    by (auto simp: emitted_def split: if_splits)
  from 6 have 7: "py_getitem r ''type_pna'' = Some (JStr (type file_info))"
    and 8: "py_getitem r ''fichier_source'' = Some (JStr file_name)"
    by (simp_all add: annotate_type_pna annotate_fichier_source)
  from 6 have 9: "type file_info = chiropteres \<longrightarrow>
                py_getitem r enjeu_detaille
                  = Some (case map_of kvs ''t_enjeux'' of
                            None \<Rightarrow> JStr indetermine
                          | Some enjeu \<Rightarrow> enjeu)"
    by (simp add: annotate_enjeu)
  from 1 2 4 5 6 7 8 9 show ?thesis by blast
qed

text \<open>
  C8, as the code has it. On every collection of loaded files whose \<open>features\<close> members
  are lists: every feature that matches and has an attribute mapping has its record in
  the list \<open>is_in_pna\<close> returns, that record is the mapping with the type of its file
  under \<open>type_pna\<close> and the name of its file under \<open>fichier_source\<close>, whatever the type,
  and when the type of the file is \<open>chiropteres\<close>, with the value of the feature's
  attribute \<open>t_enjeux\<close> under \<open>enjeu_detaille\<close>, or \<open>indetermine\<close> when the feature has no
  such attribute. Every record returned is the record of such a feature. (A feature that
  matches and has no attribute mapping has no record.)
\<close>

theorem is_in_pna_stamps_every_record:
  assumes "\<forall>(file_name, file_info) \<in> set all_data_sources. feature_list file_info \<noteq> None"
  shows "(\<forall>(file_name, file_info) \<in> set all_data_sources.
            \<forall>f \<in> set (features_of file_info). \<forall>kvs.
              is_match G (x_l93, y_l93) f \<longrightarrow> properties_dict f = Some kvs \<longrightarrow>
              (\<exists>rs r. results (is_in_pna G lat lon x_l93 y_l93 all_data_sources) = Some rs
                  \<and> r \<in> set rs
                  \<and> r = JObj (annotate (type file_info) file_name kvs)
                  \<and> py_getitem r ''type_pna'' = Some (JStr (type file_info))
                  \<and> py_getitem r ''fichier_source'' = Some (JStr file_name)
                  \<and> (type file_info = chiropteres \<longrightarrow>
                       py_getitem r enjeu_detaille
                         = Some (case map_of kvs ''t_enjeux'' of
                                   None \<Rightarrow> JStr indetermine
                                 | Some enjeu \<Rightarrow> enjeu))))
         \<and> (\<forall>rs r. results (is_in_pna G lat lon x_l93 y_l93 all_data_sources) = Some rs \<longrightarrow>
              r \<in> set rs \<longrightarrow>
              (\<exists>file_name file_info f kvs.
                 (file_name, file_info) \<in> set all_data_sources
                 \<and> f \<in> set (features_of file_info)
                 \<and> is_match G (x_l93, y_l93) f
                 \<and> properties_dict f = Some kvs
                 \<and> r = JObj (annotate (type file_info) file_name kvs)
                 \<and> py_getitem r ''type_pna'' = Some (JStr (type file_info))
                 \<and> py_getitem r ''fichier_source'' = Some (JStr file_name)
                 \<and> (type file_info = chiropteres \<longrightarrow>
                      py_getitem r enjeu_detaille
                        = Some (case map_of kvs ''t_enjeux'' of
                                  None \<Rightarrow> JStr indetermine
                                | Some enjeu \<Rightarrow> enjeu))))"
proof -
  have forward: "\<exists>rs r. results (is_in_pna G lat lon x_l93 y_l93 all_data_sources) = Some rs
                  \<and> r \<in> set rs
                  \<and> r = JObj (annotate (type file_info) file_name kvs)
                  \<and> py_getitem r ''type_pna'' = Some (JStr (type file_info))
                  \<and> py_getitem r ''fichier_source'' = Some (JStr file_name)
                  \<and> (type file_info = chiropteres \<longrightarrow>
                       py_getitem r enjeu_detaille
                         = Some (case map_of kvs ''t_enjeux'' of
                                   None \<Rightarrow> JStr indetermine
                                 | Some enjeu \<Rightarrow> enjeu))"
    if "(file_name, file_info) \<in> set all_data_sources" "f \<in> set (features_of file_info)"
      "is_match G (x_l93, y_l93) f" "properties_dict f = Some kvs"
    for file_name file_info f kvs
  proof -
    from matching_feature_is_returned [OF assms that, of lat lon] obtain rs where
      "results (is_in_pna G lat lon x_l93 y_l93 all_data_sources) = Some rs"
      "JObj (annotate (type file_info) file_name kvs) \<in> set rs"
      by blast
    then show ?thesis
      by (auto simp: annotate_type_pna annotate_fichier_source annotate_enjeu)
  qed
  have backward: "\<exists>file_name file_info f kvs.
                 (file_name, file_info) \<in> set all_data_sources
                 \<and> f \<in> set (features_of file_info)
                 \<and> is_match G (x_l93, y_l93) f
                 \<and> properties_dict f = Some kvs
                 \<and> r = JObj (annotate (type file_info) file_name kvs)
                 \<and> py_getitem r ''type_pna'' = Some (JStr (type file_info))
                 \<and> py_getitem r ''fichier_source'' = Some (JStr file_name)
                 \<and> (type file_info = chiropteres \<longrightarrow>
                      py_getitem r enjeu_detaille
                        = Some (case map_of kvs ''t_enjeux'' of
                                  None \<Rightarrow> JStr indetermine
                                | Some enjeu \<Rightarrow> enjeu))"
    if "results (is_in_pna G lat lon x_l93 y_l93 all_data_sources) = Some rs" "r \<in> set rs"
    for rs r
    using returned_record_is_stamped [OF that] .
  from forward backward show ?thesis by blast
qed

lemma stakeless_zone:
  "\<forall>(file_name, file_info) \<in> set stakeless_sources. feature_list file_info \<noteq> None"
  "(''chauve_souris.json'',
    \<lparr>data = feature_collection
              [zone (rectangle 0 0 100 100) [(''n_espece'', JStr ''grand murin'')]],
     type = chiropteres\<rparr>) \<in> set stakeless_sources"
  "zone (rectangle 0 0 100 100) [(''n_espece'', JStr ''grand murin'')]
     \<in> set (features_of
         \<lparr>data = feature_collection
                   [zone (rectangle 0 0 100 100) [(''n_espece'', JStr ''grand murin'')]],
          type = chiropteres\<rparr>)"
  "is_match rect_shapely (50, 50) (zone (rectangle 0 0 100 100) [(''n_espece'', JStr ''grand murin'')])"
  "properties_dict (zone (rectangle 0 0 100 100) [(''n_espece'', JStr ''grand murin'')])
     = Some [(''n_espece'', JStr ''grand murin'')]"
  by (simp_all add: more_example_defs example_defs features_of_def feature_list_def
      is_match_def readable_shape_def properties_dict_def)

theorem is_in_pna_stamps_every_record_witness:
  "(\<exists>rs r. results (is_in_pna rect_shapely 0 0 50 50 stakeless_sources) = Some rs
       \<and> r \<in> set rs
       \<and> py_getitem r ''n_espece'' = Some (JStr ''grand murin'')
       \<and> py_getitem r ''type_pna'' = Some (JStr chiropteres)
       \<and> py_getitem r ''fichier_source'' = Some (JStr ''chauve_souris.json'')
       \<and> py_getitem r enjeu_detaille = Some (JStr indetermine))
   \<and> (\<exists>rs r. results (is_in_pna rect_shapely 0 0 50 50 example_sources) = Some rs
       \<and> r \<in> set rs
       \<and> py_getitem r ''type_pna'' = Some (JStr chiropteres)
       \<and> py_getitem r ''fichier_source'' = Some (JStr ''bats.geojson'')
       \<and> py_getitem r enjeu_detaille = Some (JStr ''Fort''))"
proof -
  from is_in_pna_stamps_every_record [OF stakeless_zone(1), of rect_shapely 50 50 0 0]
  have "\<forall>(file_name, file_info) \<in> set stakeless_sources.
            \<forall>f \<in> set (features_of file_info). \<forall>kvs.
              is_match rect_shapely (50, 50) f \<longrightarrow> properties_dict f = Some kvs \<longrightarrow>
              (\<exists>rs r. results (is_in_pna rect_shapely 0 0 50 50 stakeless_sources) = Some rs
                  \<and> r \<in> set rs
                  \<and> r = JObj (annotate (type file_info) file_name kvs)
                  \<and> py_getitem r ''type_pna'' = Some (JStr (type file_info))
                  \<and> py_getitem r ''fichier_source'' = Some (JStr file_name)
                  \<and> (type file_info = chiropteres \<longrightarrow>
                       py_getitem r enjeu_detaille
                         = Some (case map_of kvs ''t_enjeux'' of
                                   None \<Rightarrow> JStr indetermine
                                 | Some enjeu \<Rightarrow> enjeu)))"
    by blast
  from bspec [OF this stakeless_zone(2)] stakeless_zone(3,4,5)
  have "\<exists>rs r. results (is_in_pna rect_shapely 0 0 50 50 stakeless_sources) = Some rs
                  \<and> r \<in> set rs
                  \<and> r = JObj (annotate chiropteres ''chauve_souris.json''
                                [(''n_espece'', JStr ''grand murin'')])
                  \<and> py_getitem r ''type_pna'' = Some (JStr chiropteres)
                  \<and> py_getitem r ''fichier_source'' = Some (JStr ''chauve_souris.json'')
                  \<and> py_getitem r enjeu_detaille = Some (JStr indetermine)"
    by auto
  then obtain rs r where h:
    "results (is_in_pna rect_shapely 0 0 50 50 stakeless_sources) = Some rs" "r \<in> set rs"
    "r = JObj (annotate chiropteres ''chauve_souris.json'' [(''n_espece'', JStr ''grand murin'')])"
    "py_getitem r ''type_pna'' = Some (JStr chiropteres)"
    "py_getitem r ''fichier_source'' = Some (JStr ''chauve_souris.json'')"
    "py_getitem r enjeu_detaille = Some (JStr indetermine)"
    by blast
  have "py_getitem (JObj (annotate chiropteres ''chauve_souris.json''
                      [(''n_espece'', JStr ''grand murin'')])) ''n_espece''
          = Some (JStr ''grand murin'')"
    by (simp add: annotate_def label_defs)
  with h(3) have "py_getitem r ''n_espece'' = Some (JStr ''grand murin'')" by simp
  with h have first: "\<exists>rs r. results (is_in_pna rect_shapely 0 0 50 50 stakeless_sources) = Some rs
       \<and> r \<in> set rs
       \<and> py_getitem r ''n_espece'' = Some (JStr ''grand murin'')
       \<and> py_getitem r ''type_pna'' = Some (JStr chiropteres)
       \<and> py_getitem r ''fichier_source'' = Some (JStr ''chauve_souris.json'')
       \<and> py_getitem r enjeu_detaille = Some (JStr indetermine)"
    by blast
  from is_in_pna_stamps_every_record [OF example_lists, of rect_shapely 50 50 0 0]
  have "\<forall>(file_name, file_info) \<in> set example_sources.
            \<forall>f \<in> set (features_of file_info). \<forall>kvs.
              is_match rect_shapely (50, 50) f \<longrightarrow> properties_dict f = Some kvs \<longrightarrow>
              (\<exists>rs r. results (is_in_pna rect_shapely 0 0 50 50 example_sources) = Some rs
                  \<and> r \<in> set rs
                  \<and> r = JObj (annotate (type file_info) file_name kvs)
                  \<and> py_getitem r ''type_pna'' = Some (JStr (type file_info))
                  \<and> py_getitem r ''fichier_source'' = Some (JStr file_name)
                  \<and> (type file_info = chiropteres \<longrightarrow>
                       py_getitem r enjeu_detaille
                         = Some (case map_of kvs ''t_enjeux'' of
                                   None \<Rightarrow> JStr indetermine
                                 | Some enjeu \<Rightarrow> enjeu)))"
    by blast
  from bspec [OF this example_bats_zone(1)]
  have inner: "\<forall>f \<in> set (features_of \<lparr>data = bats_document, type = chiropteres\<rparr>). \<forall>kvs.
              is_match rect_shapely (50, 50) f \<longrightarrow> properties_dict f = Some kvs \<longrightarrow>
              (\<exists>rs r. results (is_in_pna rect_shapely 0 0 50 50 example_sources) = Some rs
                  \<and> r \<in> set rs
                  \<and> r = JObj (annotate chiropteres ''bats.geojson'' kvs)
                  \<and> py_getitem r ''type_pna'' = Some (JStr chiropteres)
                  \<and> py_getitem r ''fichier_source'' = Some (JStr ''bats.geojson'')
                  \<and> py_getitem r enjeu_detaille
                         = Some (case map_of kvs ''t_enjeux'' of
                                   None \<Rightarrow> JStr indetermine
                                 | Some enjeu \<Rightarrow> enjeu))"
    by simp
  from bspec [OF inner example_bats_zone(2)] example_bats_zone(3,4)
  obtain rs' r' where h':
    "results (is_in_pna rect_shapely 0 0 50 50 example_sources) = Some rs'" "r' \<in> set rs'"
    "py_getitem r' ''type_pna'' = Some (JStr chiropteres)"
    "py_getitem r' ''fichier_source'' = Some (JStr ''bats.geojson'')"
    "py_getitem r' enjeu_detaille
       = Some (case map_of [(''t_enjeux'', JStr ''Fort'')] ''t_enjeux'' of
                 None \<Rightarrow> JStr indetermine
               | Some enjeu \<Rightarrow> enjeu)"
    by blast
  from h'(5) have "py_getitem r' enjeu_detaille = Some (JStr ''Fort'')" by simp
  with h'(1-4) have second:
    "\<exists>rs r. results (is_in_pna rect_shapely 0 0 50 50 example_sources) = Some rs
       \<and> r \<in> set rs
       \<and> py_getitem r ''type_pna'' = Some (JStr chiropteres)
       \<and> py_getitem r ''fichier_source'' = Some (JStr ''bats.geojson'')
       \<and> py_getitem r enjeu_detaille = Some (JStr ''Fort'')"
    by blast
  from first second show ?thesis by blast
qed

theorem is_in_pna_stamps_every_record_counterexample:
  "fst (load_files scalar_repr detection_automatique
          [\<lparr>name = ''chauve_souris.json'', parsed = Some (feature_collection [bare_zone])\<rparr>])
     = bare_sources
   \<and> file_summary bare_sources = Some [(''chauve_souris.json'', chiropteres, 1)]
   \<and> is_match rect_shapely (50, 50) bare_zone
   \<and> results (is_in_pna rect_shapely 0 0 50 50 bare_sources) = None
   \<and> in_pna (is_in_pna rect_shapely 0 0 50 50 bare_sources) = False"
  by (simp add: load_files_def load_file_def file_extension_def last_dot_part_def
      current_type_def detect_by_name_def is_geojson_def lower_def lower_char_def
      file_summary_def is_match_def readable_shape_def is_in_pna_def check_feature_def
      more_example_defs example_defs label_defs Let_def)

lemma forced_type_detected:
  assumes "pna_type \<in> set pna_type_options" and "pna_type \<noteq> detection_automatique"
  shows "pna_type \<noteq> type_non_detecte"
  using assms by (auto simp: pna_type_options_def label_defs)

lemma load_file_stores:
  assumes "file_extension file_name \<in> set [''geojson'', ''json'']"
    and "is_geojson d = Some True"
    and "current_type repr pna_type file_name d = Some t"
  shows "map_of (fst (load_file repr pna_type st \<lparr>name = file_name, parsed = Some d\<rparr>)) file_name
           = Some \<lparr>data = d, type = t\<rparr>"
  using assms
  by (simp add: load_file_def Let_def update_conv' split: option.splits)

text \<open>
  C6. When the user has chosen a type in the select box and not the automatic detection,
  that type is the type of the file whatever its name and its content are, the contents
  on which the inspection of the features would raise included: neither heuristic has
  a say. A file that is read and passes the test of line 192 is stored with that type.
\<close>

theorem forced_type_is_assigned:
  assumes "pna_type \<in> set pna_type_options" and "pna_type \<noteq> detection_automatique"
  shows "current_type repr pna_type file_name d = Some pna_type
         \<and> (file_extension file_name \<in> set [''geojson'', ''json''] \<longrightarrow>
              is_geojson d = Some True \<longrightarrow>
              map_of (fst (load_file repr pna_type st \<lparr>name = file_name, parsed = Some d\<rparr>))
                     file_name
                = Some \<lparr>data = d, type = pna_type\<rparr>)"
proof -
  have t: "current_type repr pna_type file_name d = Some pna_type"
    using assms(2) forced_type_detected [OF assms] by (simp add: current_type_def Let_def)
  with load_file_stores [of file_name d repr pna_type pna_type st] show ?thesis by simp
qed

lemma chiropteres_option: "chiropteres \<in> set pna_type_options \<and> chiropteres \<noteq> detection_automatique"
  by (simp add: pna_type_options_def label_defs)

theorem forced_type_is_assigned_witness:
  "current_type scalar_repr chiropteres ''odonates_libellules.geojson'' dragonflies_document
     = Some chiropteres
   \<and> map_of (fst (load_file scalar_repr chiropteres ([], [])
                 \<lparr>name = ''odonates_libellules.geojson'', parsed = Some dragonflies_document\<rparr>))
             ''odonates_libellules.geojson''
       = Some \<lparr>data = dragonflies_document, type = chiropteres\<rparr>"
proof -
  have e: "file_extension ''odonates_libellules.geojson'' \<in> set [''geojson'', ''json'']"
    by (simp add: file_extension_def last_dot_part_def lower_def lower_char_def)
  have g: "is_geojson dragonflies_document = Some True"
    by (simp add: is_geojson_def example_defs)
  from forced_type_is_assigned [of chiropteres scalar_repr "''odonates_libellules.geojson''"
      dragonflies_document "([], [])"] chiropteres_option e g
  show ?thesis by blast
qed

lemma detect_by_content_first10:
  assumes "py_getitem d ''features'' = Some (JArr fs)"
  shows "detect_by_content repr d = inspect_features repr (take 10 fs)"
  using assms by (simp add: detect_by_content_def)

text \<open>
  C7. In the automatic detection the file name comes first: when a rule on the name
  fires (as for a name that holds \<open>chiroptere\<close>, which gives the type of the bats), the
  type is the one of that rule whatever the content is, the contents on which the
  inspection would raise included. The content decides only when no rule on the name
  fired, and then through the first ten features only: two documents whose lists of
  features agree on their first ten elements get the same answer.
\<close>

theorem file_name_comes_before_content:
  "(detect_by_name file_name \<noteq> type_non_detecte \<longrightarrow>
      current_type repr detection_automatique file_name d = Some (detect_by_name file_name))
   \<and> (str_in ''chiroptere'' (lower file_name) \<longrightarrow>
        current_type repr detection_automatique file_name d = Some chiropteres)
   \<and> (detect_by_name file_name = type_non_detecte \<longrightarrow>
        current_type repr detection_automatique file_name d
          = map_option (\<lambda>t. if t = type_non_detecte then type_inconnu else t)
              (detect_by_content repr d))
   \<and> (py_getitem d ''features'' = Some (JArr fs) \<longrightarrow>
        py_getitem d' ''features'' = Some (JArr fs') \<longrightarrow>
        take 10 fs = take 10 fs' \<longrightarrow>
        detect_by_content repr d = detect_by_content repr d')"
proof -
  have 1: "current_type repr detection_automatique file_name d = Some (detect_by_name file_name)"
    if "detect_by_name file_name \<noteq> type_non_detecte"
    using that by (simp add: current_type_def Let_def)
  have c: "detect_by_name file_name = chiropteres" if "str_in ''chiroptere'' (lower file_name)"
    using that by (simp add: detect_by_name_def Let_def)
  have "chiropteres \<noteq> type_non_detecte" by (simp add: label_defs)
  with 1 c have 2: "current_type repr detection_automatique file_name d = Some chiropteres"
    if "str_in ''chiroptere'' (lower file_name)"
    using that by simp
  have 3: "current_type repr detection_automatique file_name d
          = map_option (\<lambda>t. if t = type_non_detecte then type_inconnu else t)
              (detect_by_content repr d)"
    if "detect_by_name file_name = type_non_detecte"
    using that by (simp add: current_type_def Let_def split: option.splits)
  have 4: "detect_by_content repr d = detect_by_content repr d'"
    if "py_getitem d ''features'' = Some (JArr fs)" "py_getitem d' ''features'' = Some (JArr fs')"
      "take 10 fs = take 10 fs'"
    using that by (simp add: detect_by_content_first10)
  from 1 2 3 4 show ?thesis by blast
qed

theorem file_name_comes_before_content_witness:
  "current_type scalar_repr detection_automatique ''chiroptere_zones.geojson'' dragonflies_document
     = Some chiropteres
   \<and> current_type scalar_repr detection_automatique ''zones.json'' dragonflies_document
     = Some odonates"
proof -
  have n: "str_in ''chiroptere'' (lower ''chiroptere_zones.geojson'')"
    by (simp add: lower_def lower_char_def)
  have u: "detect_by_name ''zones.json'' = type_non_detecte"
    by (simp add: detect_by_name_def lower_def lower_char_def)
  have c: "detect_by_content scalar_repr dragonflies_document = Some odonates"
    by code_simp
  have o: "odonates \<noteq> type_non_detecte" by (simp add: label_defs)
  from file_name_comes_before_content
    [of "''chiroptere_zones.geojson''" scalar_repr dragonflies_document] n
  have "current_type scalar_repr detection_automatique ''chiroptere_zones.geojson''
          dragonflies_document = Some chiropteres"
    by blast
  moreover from file_name_comes_before_content
    [of "''zones.json''" scalar_repr dragonflies_document] u c o
  have "current_type scalar_repr detection_automatique ''zones.json'' dragonflies_document
          = Some odonates"
    by simp
  ultimately show ?thesis by simp
qed

text \<open>
  C3, on the code. With the automatic detection, the file \<open>griseche_merid.geojson\<close> is
  stored with the type of the grey shrike, not with the one of the southern grey shrike:
  the word \<open>griseche\<close> holds the word \<open>grise\<close>, so the rule of line 177 fires on every
  name the rule of line 179 is written for. The name \<open>griseche_tete_rousse.json\<close> gets
  the type of the grey shrike as well: the rule on the name does not look for \<open>tete\<close>.
\<close>

theorem griseche_merid_is_stored_as_grise:
  "load_files scalar_repr detection_automatique
     [\<lparr>name = ''griseche_merid.geojson'', parsed = Some shrike_document\<rparr>]
     = ([(''griseche_merid.geojson'', \<lparr>data = shrike_document, type = pie_grieche_grise\<rparr>)],
        [Success ''griseche_merid.geojson'' pie_grieche_grise 1])
   \<and> pie_grieche_grise \<noteq> pie_grieche_meridionale
   \<and> detect_by_name ''griseche_tete_rousse.json'' = pie_grieche_grise"
  by (simp add: load_files_def load_file_def file_extension_def last_dot_part_def
      current_type_def detect_by_name_def is_geojson_def lower_def lower_char_def
      example_defs label_defs Let_def)

lemma load_file_rejects:
  assumes "file_extension (name uploaded) \<in> set [''geojson'', ''json'']"
    and "parsed uploaded = None
         \<or> (\<exists>kvs. parsed uploaded = Some (JObj kvs)
                \<and> (map_of kvs ''type'' = None \<or> map_of kvs ''features'' = None))"
  shows "fst (load_file repr pna_type st uploaded) = fst st
         \<and> (snd (load_file repr pna_type st uploaded) = snd st @ [Error_loading (name uploaded)]
            \<or> snd (load_file repr pna_type st uploaded) = snd st @ [Error_invalid (name uploaded)])"
  using assms
  by (auto simp: load_file_def Let_def is_geojson_def split: option.splits bool.splits)

lemma load_files_snoc:
  "load_files repr pna_type (uploaded_files @ [uploaded])
     = load_file repr pna_type (load_files repr pna_type uploaded_files) uploaded"
  by (simp add: load_files_def)

lemma list_document_ends_the_summary:
  "file_summary
     [(''zones.json'', \<lparr>data = list_document, type = chiropteres\<rparr>),
      (''dragonflies.json'', \<lparr>data = dragonflies_document, type = chiropteres\<rparr>)] = None"
  by (simp add: file_summary_def example_defs)

text \<open>
  C9, on the code. With the type of the bats chosen in the select box, the file whose
  document is the list \<open>["type", "features"]\<close> passes the test of line 192 (the two words
  are elements of the list) and is stored at line 229; only then does \<open>data['features']\<close>
  raise, in the message of line 236. The error is shown and the file stays in the
  collection. (In the script the table of line 249 then raises on this file, outside
  every handler. \<open>is_in_pna\<close> itself, given this collection, stops at this file: it
  shows an error and returns false, although the point lies in the zone of the file
  loaded after it.)
\<close>

theorem list_document_is_stored:
  "load_files scalar_repr chiropteres
     [\<lparr>name = ''zones.json'', parsed = Some list_document\<rparr>,
      \<lparr>name = ''dragonflies.json'', parsed = Some dragonflies_document\<rparr>]
     = ([(''zones.json'', \<lparr>data = list_document, type = chiropteres\<rparr>),
         (''dragonflies.json'', \<lparr>data = dragonflies_document, type = chiropteres\<rparr>)],
        [Error_loading ''zones.json'', Success ''dragonflies.json'' chiropteres 1])
   \<and> is_geojson list_document = Some True
   \<and> py_getitem list_document ''type'' = None
   \<and> in_pna (is_in_pna rect_shapely 0 0 50 50
        [(''zones.json'', \<lparr>data = list_document, type = chiropteres\<rparr>),
         (''dragonflies.json'', \<lparr>data = dragonflies_document, type = chiropteres\<rparr>)]) = False
   \<and> error_shown (is_in_pna rect_shapely 0 0 50 50
        [(''zones.json'', \<lparr>data = list_document, type = chiropteres\<rparr>),
         (''dragonflies.json'', \<lparr>data = dragonflies_document, type = chiropteres\<rparr>)])
   \<and> in_pna (is_in_pna rect_shapely 0 0 50 50
        [(''dragonflies.json'', \<lparr>data = dragonflies_document, type = chiropteres\<rparr>)])"
  by (simp add: load_files_def load_file_def file_extension_def last_dot_part_def
      current_type_def is_geojson_def lower_def lower_char_def is_in_pna_def
      check_feature_def annotate_def example_defs label_defs Let_def)

lemma disc_holds_centre: "p \<in> points (disc p 1)"
  by (simp add: points_def disc_def sq_dist_def)

lemma region_contains_meets_disc:
  assumes "region_contains g p"
  shows "region_intersects g (disc p 1)"
proof -
  from assms have "p \<in> points g" by (simp add: region_contains_def points_def)
  with disc_holds_centre [of p] have "p \<in> points g \<inter> points (disc p 1)" by simp
  then show ?thesis unfolding region_intersects_def by blast
qed

lemma check_feature_without_contains:
  "check_feature (without_contains (region_shapely read)) p (disc p 1) dt fn f
     = check_feature (region_shapely read) p (disc p 1) dt fn f"
proof -
  have "(region_contains s p \<or> region_intersects s (disc p 1)) = region_intersects s (disc p 1)"
    for s
    using region_contains_meets_disc [of s p] by blast
  then show ?thesis
    by (simp add: check_feature_def without_contains_def region_shapely_def
        split: option.splits)
qed

lemma check_features_without_contains:
  "check_features (without_contains (region_shapely read)) p (disc p 1) dt fn fs
     = check_features (region_shapely read) p (disc p 1) dt fn fs"
  by (induction fs) (simp_all add: check_feature_without_contains)

lemma buffer_region_shapely:
  "buffer (region_shapely read) p 1 = disc p 1"
  "buffer (without_contains (region_shapely read)) p 1 = disc p 1"
  by (simp_all add: region_shapely_def without_contains_def)

lemma check_sources_without_contains:
  "check_sources (without_contains (region_shapely read)) p srcs
     = check_sources (region_shapely read) p srcs"
proof (induction srcs)
  case Nil
  show ?case by simp
next
  case (Cons entry srcs)
  obtain fn fi where e: "entry = (fn, fi)" by (cases entry)
  show ?case
    by (simp add: e buffer_region_shapely check_features_without_contains Cons Let_def
        cong: option.case_cong)
qed

text \<open>
  C10. In the geometry of the specification, a geometry that contains a point meets the
  buffer of one metre around it, since the point lies in both. So the test of line 108,
  "contains the point or intersects the buffer", has the value of its second half
  alone, and \<open>is_in_pna\<close> does the same with the first half taken away.
\<close>

theorem contains_implies_intersects_buffer:
  "(contains (region_shapely read) g p \<longrightarrow>
      intersects (region_shapely read) g (buffer (region_shapely read) p 1))
   \<and> ((contains (region_shapely read) g p
         \<or> intersects (region_shapely read) g (buffer (region_shapely read) p 1))
        = intersects (region_shapely read) g (buffer (region_shapely read) p 1))
   \<and> is_in_pna (without_contains (region_shapely read)) lat lon x_l93 y_l93 all_data_sources
        = is_in_pna (region_shapely read) lat lon x_l93 y_l93 all_data_sources"
proof -
  have 1: "contains (region_shapely read) g p \<longrightarrow>
      intersects (region_shapely read) g (buffer (region_shapely read) p 1)"
    using region_contains_meets_disc [of g p] by (simp add: region_shapely_def)
  have 3: "is_in_pna (without_contains (region_shapely read)) lat lon x_l93 y_l93 all_data_sources
        = is_in_pna (region_shapely read) lat lon x_l93 y_l93 all_data_sources"
    by (simp add: is_in_pna_def check_sources_without_contains)
  from 1 3 show ?thesis by blast
qed

theorem contains_implies_intersects_buffer_witness:
  "contains (region_shapely (\<lambda>j. None)) square100 (50, 50)
   \<and> intersects (region_shapely (\<lambda>j. None)) square100
        (buffer (region_shapely (\<lambda>j. None)) (50, 50) 1)"
proof -
  have c: "contains (region_shapely (\<lambda>j. None)) square100 (50, 50)"
    by (simp add: region_shapely_def region_contains_def square100_def)
  with contains_implies_intersects_buffer [of "\<lambda>j. None" square100 "(50, 50)"]
  show ?thesis by blast
qed

end
